theory Spec2Isabelle
  imports Complex_Main
begin

section \<open>JavaScript values, exceptions and effects\<close>

text \<open>
  The AI layer of the note application is a set of TypeScript classes: three provider
  services (HuggingFace, OpenAI, Google) and a unified service that dispatches to them.
  Every method is an async function whose body is a \<^verbatim>\<open>try/catch\<close>. The embedding
  keeps the exceptions as values and records, in a log, each request sent to a remote
  API and each provider method the unified service invokes.

  Strings are lists of \<^typ>\<open>char\<close>; letters, digits and white space are the ASCII ones.
  Scores are JavaScript numbers, modelled as real numbers.
\<close>

datatype js_error = Error string | HttpError nat string | Thrown

text \<open>\<^verbatim>\<open>error instanceof Error ? error.message : 'Unknown error'\<close>\<close>

fun message :: "js_error \<Rightarrow> string" where
  "message (Error m) = m"
| "message (HttpError code m) = m"
| "message Thrown = ''Unknown error''"

datatype service = HuggingFace | OpenAI | Google

datatype operation = TestConnection | SuggestTags | ParseNote | GenerateText

datatype event = Network service | Invoke service operation

type_synonym 'a io = "event list \<times> (js_error + 'a)"

definition return_io :: "'a \<Rightarrow> 'a io" where
  "return_io x = ([], Inr x)"

definition throw_io :: "js_error \<Rightarrow> 'a io" where
  "throw_io e = ([], Inl e)"

definition bind_io :: "'a io \<Rightarrow> ('a \<Rightarrow> 'b io) \<Rightarrow> 'b io" where
  "bind_io m f =
     (case snd m of
        Inl e \<Rightarrow> (fst m, Inl e)
      | Inr x \<Rightarrow> (fst m @ fst (f x), snd (f x)))"

text \<open>\<^verbatim>\<open>try { m } catch (error) { h(error) }\<close>\<close>

definition try_catch :: "'a io \<Rightarrow> (js_error \<Rightarrow> 'a io) \<Rightarrow> 'a io" where
  "try_catch m h =
     (case snd m of
        Inl e \<Rightarrow> (fst m @ fst (h e), snd (h e))
      | Inr x \<Rightarrow> m)"

text \<open>A request to the remote API of a provider, with the outcome the API gives.\<close>

definition request :: "service \<Rightarrow> (js_error + 'a) \<Rightarrow> 'a io" where
  "request s outcome = ([Network s], outcome)"

text \<open>A call of a provider method by the unified service.\<close>

definition invoke :: "service \<Rightarrow> operation \<Rightarrow> 'a io \<Rightarrow> 'a io" where
  "invoke s opn m = (Invoke s opn # fst m, snd m)"

text \<open>A computation without effects that may throw, run inside an async method.\<close>

definition lift :: "(js_error + 'a) \<Rightarrow> 'a io" where
  "lift r = ([], r)"

text \<open>\<^verbatim>\<open>!KEY\<close> for an environment variable: undefined and the empty string are falsy.\<close>

definition configured :: "string option \<Rightarrow> bool" where
  "configured key = (case key of None \<Rightarrow> False | Some k \<Rightarrow> k \<noteq> [])"

section \<open>Strings\<close>

definition isUpper :: "char \<Rightarrow> bool" where
  "isUpper c = (65 \<le> (of_char c :: nat) \<and> (of_char c :: nat) \<le> 90)"

definition isLower :: "char \<Rightarrow> bool" where
  "isLower c = (97 \<le> (of_char c :: nat) \<and> (of_char c :: nat) \<le> 122)"

definition isDigit :: "char \<Rightarrow> bool" where
  "isDigit c = (48 \<le> (of_char c :: nat) \<and> (of_char c :: nat) \<le> 57)"

text \<open>The class \<^verbatim>\<open>[a-zA-Z]\<close>.\<close>

definition isLetter :: "char \<Rightarrow> bool" where
  "isLetter c = (isLower c \<or> isUpper c)"

text \<open>The class \<^verbatim>\<open>\W\<close>: everything but letters, digits and the underscore.\<close>

definition nonWord :: "char \<Rightarrow> bool" where
  "nonWord c = (\<not> (isLetter c \<or> isDigit c \<or> c = CHR ''_''))"

text \<open>The class \<^verbatim>\<open>[.!?]\<close>.\<close>

definition sentenceEnd :: "char \<Rightarrow> bool" where
  "sentenceEnd c = (c = CHR ''.'' \<or> c = CHR ''!'' \<or> c = CHR ''?'')"

definition isSpace :: "char \<Rightarrow> bool" where
  "isSpace c = (c = CHR '' '' \<or> (9 \<le> (of_char c :: nat) \<and> (of_char c :: nat) \<le> 13))"

definition toLowerChar :: "char \<Rightarrow> char" where
  "toLowerChar c = (if isUpper c then char_of ((of_char c :: nat) + 32) else c)"

definition toLowerCase :: "string \<Rightarrow> string" where
  "toLowerCase s = map toLowerChar s"

definition trim :: "string \<Rightarrow> string" where
  "trim s = rev (dropWhile isSpace (rev (dropWhile isSpace s)))"

fun startsWith :: "string \<Rightarrow> string \<Rightarrow> bool" where
  "startsWith s [] = True"
| "startsWith [] (p # ps) = False"
| "startsWith (c # cs) (p # ps) = (c = p \<and> startsWith cs ps)"

text \<open>\<^verbatim>\<open>s.includes(sub)\<close>: \<open>sub\<close> occurs in \<open>s\<close> as a contiguous substring.\<close>

fun includes_str :: "string \<Rightarrow> string \<Rightarrow> bool" where
  "includes_str [] sub = (sub = [])"
| "includes_str (c # cs) sub = (startsWith (c # cs) sub \<or> includes_str cs sub)"

text \<open>\<^verbatim>\<open>s.substring(0, 3)\<close>\<close>

definition substring3 :: "string \<Rightarrow> string" where
  "substring3 s = take 3 s"

text \<open>
  \<^verbatim>\<open>s.split(' ')\<close>: the pieces between single separator characters, empty pieces
  included; the result is never empty, so element \<open>0\<close> exists.
\<close>

fun split_char :: "char \<Rightarrow> string \<Rightarrow> string list" where
  "split_char d [] = [[]]"
| "split_char d (c # cs) =
     (if c = d then [] # split_char d cs
      else (case split_char d cs of
              [] \<Rightarrow> [[c]]
            | p # ps \<Rightarrow> (c # p) # ps))"

text \<open>
  \<^verbatim>\<open>s.split(/[...]+/)\<close> for a character class: the pieces between maximal runs of
  separator characters; a run at the start or at the end leaves an empty piece there.
  \<open>cur\<close> is the piece being read, reversed.
\<close>

function split_runs :: "(char \<Rightarrow> bool) \<Rightarrow> string \<Rightarrow> string \<Rightarrow> string list" where
  "split_runs sep cur [] = [rev cur]"
| "split_runs sep cur (c # cs) =
     (if sep c then rev cur # split_runs sep [] (dropWhile sep cs)
      else split_runs sep (c # cur) cs)"
  by pat_completeness auto
termination
  by (relation "measure (\<lambda>(sep, cur, s). length s)")
     (auto simp: length_dropWhile_le le_imp_less_Suc)

section \<open>HuggingFaceService: parseNote\<close>

text \<open>
  What the token-classification endpoint returns for one entity; \<open>extractEntities\<close>
  renames the fields (\<^verbatim>\<open>item.entity_group || item.entity\<close>,
  \<^verbatim>\<open>item.confidence || item.score || 0\<close>).
\<close>

record raw_entity =
  raw_entity_group :: "string option"
  raw_entity :: "string option"
  raw_confidence :: "real option"
  raw_score :: "real option"
  raw_word :: string
  raw_start :: nat
  raw_end :: nat

record NEREntity =
  entity_group :: "string option"
  confidence :: real
  word :: string
  start :: nat
  end_pos :: nat

definition truthy_string :: "string option \<Rightarrow> bool" where
  "truthy_string s = (case s of None \<Rightarrow> False | Some v \<Rightarrow> v \<noteq> [])"

definition truthy_number :: "real option \<Rightarrow> bool" where
  "truthy_number x = (case x of None \<Rightarrow> False | Some v \<Rightarrow> v \<noteq> 0)"

definition toNEREntity :: "raw_entity \<Rightarrow> NEREntity" where
  "toNEREntity item =
     \<lparr> entity_group =
         (if truthy_string (raw_entity_group item) then raw_entity_group item
          else raw_entity item),
       confidence =
         (if truthy_number (raw_confidence item) then the (raw_confidence item)
          else if truthy_number (raw_score item) then the (raw_score item)
          else 0),
       word = raw_word item,
       start = raw_start item,
       end_pos = raw_end item \<rparr>"

text \<open>
  \<open>tokenClassification\<close> is the outcome of the remote call for the given text: the
  entities, or the exception that the call or the reading of a malformed answer raises.
  Every failure, the missing key included, is rethrown with the prefix
  \<^verbatim>\<open>NER extraction failed: \<close>.
\<close>

definition HuggingFaceService_extractEntities ::
  "string option \<Rightarrow> (string \<Rightarrow> js_error + raw_entity list) \<Rightarrow> string \<Rightarrow> NEREntity list io"
where
  "HuggingFaceService_extractEntities HF_API_KEY tokenClassification text =
     try_catch
       (if \<not> configured HF_API_KEY then throw_io (Error ''HUGGINGFACE_API_KEY not configured'')
        else bind_io (request HuggingFace (tokenClassification text))
               (\<lambda>result. return_io (map toNEREntity result)))
       (\<lambda>error. throw_io (Error (''NER extraction failed: '' @ message error)))"

definition hasLetter :: "string \<Rightarrow> bool" where
  "hasLetter s = list_ex isLetter s"

text \<open>
  The sentence heuristic of \<open>parseNote\<close>: split at runs of \<^verbatim>\<open>.!?\<close>, trim, keep the
  fragments longer than 10 characters that contain a letter.
\<close>

definition sentences :: "string \<Rightarrow> string list" where
  "sentences noteText =
     filter hasLetter
       (filter (\<lambda>s. length s > 10)
          (map trim (split_runs sentenceEnd [] noteText)))"

definition HuggingFaceService_parseNote ::
  "string option \<Rightarrow> (string \<Rightarrow> js_error + raw_entity list) \<Rightarrow> string \<Rightarrow> string list io"
where
  "HuggingFaceService_parseNote HF_API_KEY tokenClassification noteText =
     try_catch
       (bind_io (HuggingFaceService_extractEntities HF_API_KEY tokenClassification noteText)
          (\<lambda>entities.
             if length (sentences noteText) > 1 then return_io (sentences noteText)
             else return_io [trim noteText]))
       (\<lambda>error. return_io [trim noteText])"

section \<open>HuggingFaceService: the local relevance score\<close>

text \<open>
  The table of \<open>getContextMatches\<close>. It is an object literal, so besides its own seven
  keys it answers to the property names it inherits from \<^verbatim>\<open>Object.prototype\<close>. The key
  is a lower-cased string; the inherited names without a capital letter are
  \<^verbatim>\<open>constructor\<close> and \<^verbatim>\<open>__proto__\<close>, whose values are not arrays, and
  \<^verbatim>\<open>keywords.filter(...)\<close> on them throws a TypeError.
\<close>

definition contextMappings :: "(string \<times> string list) list" where
  "contextMappings =
     [(''food'', [''eat'', ''cook'', ''meal'', ''dinner'', ''lunch'', ''breakfast'', ''recipe'',
                  ''ingredient'']),
      (''shopping'', [''buy'', ''purchase'', ''store'', ''market'', ''get'', ''need'']),
      (''work'', [''meeting'', ''project'', ''deadline'', ''office'', ''email'', ''task'']),
      (''health'', [''doctor'', ''medicine'', ''exercise'', ''gym'', ''hospital'']),
      (''travel'', [''trip'', ''vacation'', ''flight'', ''hotel'', ''visit'']),
      (''home'', [''house'', ''clean'', ''repair'', ''garden'', ''room'']),
      (''finance'', [''money'', ''pay'', ''bill'', ''bank'', ''budget'', ''cost''])]"

definition inheritedProperty :: "string \<Rightarrow> bool" where
  "inheritedProperty k = (k = ''constructor'' \<or> k = ''__proto__'')"

definition getContextMatches :: "string \<Rightarrow> string \<Rightarrow> js_error + nat" where
  "getContextMatches content tag =
     (let tagKey = toLowerCase tag in
      case map_of contextMappings tagKey of
        Some keywords \<Rightarrow> Inr (length (filter (\<lambda>keyword. includes_str content keyword) keywords))
      | None \<Rightarrow>
          if inheritedProperty tagKey then Inl (Error ''keywords.filter is not a function'')
          else Inr (length (filter (\<lambda>keyword. includes_str content keyword) [])))"

text \<open>The body of the inner loop over the note's and the tag's words: what it adds.\<close>

definition wordMatch :: "string \<Rightarrow> string \<Rightarrow> real" where
  "wordMatch contentWord tagWord =
     (if contentWord = tagWord then 0.6
      else if startsWith contentWord (substring3 tagWord)
              \<or> startsWith tagWord (substring3 contentWord) then 0.3
      else 0)"

definition calculateTagRelevance :: "string \<Rightarrow> string \<Rightarrow> js_error + real" where
  "calculateTagRelevance content tag =
     (let contentLower = toLowerCase content;
          tagLower = toLowerCase tag;
          score0 = (0 :: real);
          score1 = (if includes_str contentLower tagLower then score0 + 0.8 else score0);
          score2 =
            (if includes_str tagLower (hd (split_char CHR '' '' contentLower))
                \<or> list_ex (\<lambda>word. includes_str word tagLower) (split_char CHR '' '' contentLower)
             then score1 + 0.4 else score1);
          contentWords = filter (\<lambda>word. length word > 2) (split_runs nonWord [] contentLower);
          tagWords = filter (\<lambda>word. length word > 2) (split_runs nonWord [] tagLower);
          score3 =
            fold (\<lambda>contentWord s. fold (\<lambda>tagWord s'. s' + wordMatch contentWord tagWord) tagWords s)
              contentWords score2
      in case getContextMatches contentLower tagLower of
           Inl e \<Rightarrow> Inl e
         | Inr contextMatches \<Rightarrow> Inr (min (score3 + real contextMatches * 0.4) 1.0))"

subsection \<open>The score as the specification words it\<close>

text \<open>
  The four parts of the weighted sum, written as counts rather than as loops. The
  second part comes in two readings: with the first word of the note only, and with
  every space-separated word of the note as the code has it.
\<close>

definition substringBonus :: "string \<Rightarrow> string \<Rightarrow> real" where
  "substringBonus content tag =
     (if includes_str (toLowerCase content) (toLowerCase tag) then 0.8 else 0)"

definition firstWord :: "string \<Rightarrow> string" where
  "firstWord content = takeWhile (\<lambda>c. c \<noteq> CHR '' '') (toLowerCase content)"

definition firstWordBonus :: "string \<Rightarrow> string \<Rightarrow> real" where
  "firstWordBonus content tag =
     (if includes_str (toLowerCase tag) (firstWord content)
         \<or> includes_str (firstWord content) (toLowerCase tag) then 0.4 else 0)"

definition anyWordBonus :: "string \<Rightarrow> string \<Rightarrow> real" where
  "anyWordBonus content tag =
     (if includes_str (toLowerCase tag) (firstWord content)
         \<or> list_ex (\<lambda>word. includes_str word (toLowerCase tag))
              (split_char CHR '' '' (toLowerCase content))
      then 0.4 else 0)"

definition tokens :: "string \<Rightarrow> string list" where
  "tokens s = filter (\<lambda>word. length word > 2) (split_runs nonWord [] (toLowerCase s))"

definition tokenBonus :: "string \<Rightarrow> string \<Rightarrow> real" where
  "tokenBonus content tag =
     0.6 * real (length (filter (\<lambda>(c, t). c = t) (List.product (tokens content) (tokens tag))))
     + 0.3 * real (length (filter (\<lambda>(c, t). c \<noteq> t \<and> take 3 c = take 3 t)
                             (List.product (tokens content) (tokens tag))))"

definition contextBonus :: "string \<Rightarrow> string \<Rightarrow> real" where
  "contextBonus content tag =
     (case map_of contextMappings (toLowerCase tag) of
        None \<Rightarrow> 0
      | Some keywords \<Rightarrow>
          0.4 * real (length (filter (\<lambda>keyword. includes_str (toLowerCase content) keyword)
                                keywords)))"

definition claimedRelevance :: "string \<Rightarrow> string \<Rightarrow> real" where
  "claimedRelevance content tag =
     min 1.0 (substringBonus content tag + firstWordBonus content tag
              + tokenBonus content tag + contextBonus content tag)"

definition weightedRelevance :: "string \<Rightarrow> string \<Rightarrow> real" where
  "weightedRelevance content tag =
     min 1.0 (substringBonus content tag + anyWordBonus content tag
              + tokenBonus content tag + contextBonus content tag)"

section \<open>HuggingFaceService: suggestTags\<close>

record ClassificationResult =
  label :: string
  score :: real

text \<open>
  \<^verbatim>\<open>.sort((a, b) => b.score - a.score).slice(0, 3)\<close>: a stable sort by falling score,
  then the first three.
\<close>

definition top3 :: "ClassificationResult list \<Rightarrow> ClassificationResult list" where
  "top3 results = take 3 (sort_key (\<lambda>r. - score r) results)"

text \<open>
  \<^verbatim>\<open>availableTags.filter(tag => ...)\<close> with a predicate that may throw: the first
  exception ends the whole filter.
\<close>

fun filter_throwing :: "('a \<Rightarrow> js_error + bool) \<Rightarrow> 'a list \<Rightarrow> js_error + 'a list" where
  "filter_throwing p [] = Inr []"
| "filter_throwing p (x # xs) =
     (case p x of
        Inl e \<Rightarrow> Inl e
      | Inr keep \<Rightarrow>
          (case filter_throwing p xs of
             Inl e \<Rightarrow> Inl e
           | Inr rest \<Rightarrow> Inr (if keep then x # rest else rest)))"

definition fallbackKeywordMatching :: "string \<Rightarrow> string list \<Rightarrow> js_error + string list" where
  "fallbackKeywordMatching itemContent availableTags =
     (let content = toLowerCase itemContent in
      case filter_throwing
             (\<lambda>tag.
                let tagLower = toLowerCase tag in
                if includes_str content tagLower then Inr True
                else if includes_str tagLower (hd (split_char CHR '' '' (toLowerCase content)))
                  then Inr True
                else (case calculateTagRelevance itemContent tag of
                        Inl e \<Rightarrow> Inl e
                      | Inr relevance \<Rightarrow> Inr (relevance > 0.3)))
             availableTags of
        Inl e \<Rightarrow> Inl e
      | Inr matches \<Rightarrow> Inr (take 3 matches))"

text \<open>
  The loop of \<open>suggestTagsWithDistilBERT\<close> over the available tags. Each round sends
  one classification request (\<open>textClassification\<close> gives its outcome for the tag) and
  scores the tag locally, also when the request failed.
\<close>

fun scoreTags ::
  "(string \<Rightarrow> string \<Rightarrow> js_error + unit) \<Rightarrow> string \<Rightarrow> string list \<Rightarrow> ClassificationResult list io"
where
  "scoreTags textClassification itemContent [] = return_io []"
| "scoreTags textClassification itemContent (tag # tags) =
     bind_io
       (try_catch
          (bind_io (request HuggingFace (textClassification itemContent tag))
             (\<lambda>result. bind_io (lift (calculateTagRelevance itemContent tag))
                (\<lambda>relevanceScore. return_io \<lparr> label = tag, score = relevanceScore \<rparr>)))
          (\<lambda>error. bind_io (lift (calculateTagRelevance itemContent tag))
             (\<lambda>fallbackScore. return_io \<lparr> label = tag, score = fallbackScore \<rparr>)))
       (\<lambda>tagScore. bind_io (scoreTags textClassification itemContent tags)
          (\<lambda>tagScores. return_io (tagScore # tagScores)))"

definition suggestTagsWithDistilBERT ::
  "string option \<Rightarrow> (string \<Rightarrow> string \<Rightarrow> js_error + unit) \<Rightarrow> string \<Rightarrow> string list \<Rightarrow> string list io"
where
  "suggestTagsWithDistilBERT HF_API_KEY textClassification itemContent availableTags =
     try_catch
       (if \<not> configured HF_API_KEY then throw_io (Error ''HUGGINGFACE_API_KEY not configured'')
        else bind_io (scoreTags textClassification itemContent availableTags)
               (\<lambda>tagScores.
                  let topTags = map label (top3 (filter (\<lambda>result. score result > 0.2) tagScores))
                  in if length topTags > 0 then return_io topTags
                     else lift (fallbackKeywordMatching itemContent availableTags)))
       (\<lambda>error. lift (fallbackKeywordMatching itemContent availableTags))"

text \<open>The reply of the zero-shot endpoint: \<^verbatim>\<open>resultAny.scores || []\<close>, \<^verbatim>\<open>resultAny.labels || []\<close>.\<close>

record zero_shot_reply =
  reply_scores :: "real list option"
  reply_labels :: "string list option"

definition HuggingFaceService_classifyText ::
  "string option \<Rightarrow> (string \<Rightarrow> string list \<Rightarrow> js_error + zero_shot_reply)
     \<Rightarrow> string \<Rightarrow> string list \<Rightarrow> ClassificationResult list io"
where
  "HuggingFaceService_classifyText HF_API_KEY zeroShotClassification text candidateLabels =
     try_catch
       (if \<not> configured HF_API_KEY then throw_io (Error ''HUGGINGFACE_API_KEY not configured'')
        else bind_io (request HuggingFace (zeroShotClassification text candidateLabels))
               (\<lambda>result.
                  let scores = (case reply_scores result of None \<Rightarrow> [] | Some v \<Rightarrow> v);
                      labels = (case reply_labels result of None \<Rightarrow> [] | Some v \<Rightarrow> v)
                  in return_io
                       (map (\<lambda>(l, index).
                               \<lparr> label = l,
                                 score = (if index < length scores then scores ! index else 0) \<rparr>)
                          (zip labels [0 ..< length labels]))))
       (\<lambda>error. throw_io (Error (''Text classification failed: '' @ message error)))"

text \<open>The remote endpoints of the HuggingFace client, each with the outcome it gives.\<close>

record hf_client =
  textClassification :: "string \<Rightarrow> string \<Rightarrow> js_error + unit"
  tokenClassification :: "string \<Rightarrow> js_error + raw_entity list"
  zeroShotClassification :: "string \<Rightarrow> string list \<Rightarrow> js_error + zero_shot_reply"
  textGeneration :: "string \<Rightarrow> int \<Rightarrow> js_error + string option"

definition HuggingFaceService_suggestTags ::
  "string option \<Rightarrow> string \<Rightarrow> hf_client \<Rightarrow> string \<Rightarrow> string list \<Rightarrow> string list io"
where
  "HuggingFaceService_suggestTags HF_API_KEY HF_MODEL_CLASSIFICATION client itemContent availableTags =
     try_catch
       (if HF_MODEL_CLASSIFICATION = ''distilbert-base-uncased''
        then suggestTagsWithDistilBERT HF_API_KEY (textClassification client) itemContent availableTags
        else bind_io (HuggingFaceService_classifyText HF_API_KEY (zeroShotClassification client)
                        itemContent availableTags)
               (\<lambda>classification.
                  return_io (map label (top3 (filter (\<lambda>result. score result > 0.1) classification)))))
       (\<lambda>error. return_io [])"

section \<open>HuggingFaceService: generateText and testConnection\<close>

text \<open>\<^verbatim>\<open>result.generated_text || ''\<close>\<close>

definition HuggingFaceService_generateText ::
  "string option \<Rightarrow> hf_client \<Rightarrow> string \<Rightarrow> int \<Rightarrow> string io"
where
  "HuggingFaceService_generateText HF_API_KEY client prompt maxLength =
     try_catch
       (if \<not> configured HF_API_KEY then throw_io (Error ''HUGGINGFACE_API_KEY not configured'')
        else bind_io (request HuggingFace (textGeneration client prompt maxLength))
               (\<lambda>generated_text. return_io (case generated_text of None \<Rightarrow> [] | Some t \<Rightarrow> t)))
       (\<lambda>error. throw_io (Error (''Text generation failed: '' @ message error)))"

record AIServiceStatus =
  connected :: bool
  apiKeyConfigured :: bool
  status_error :: "string option"

text \<open>\<open>probe\<close> is the outcome of the test request, should it be sent.\<close>

definition HuggingFaceService_testConnection ::
  "string option \<Rightarrow> (js_error + unit) \<Rightarrow> AIServiceStatus io"
where
  "HuggingFaceService_testConnection HF_API_KEY probe =
     try_catch
       (if \<not> configured HF_API_KEY
        then return_io \<lparr> connected = False, apiKeyConfigured = False,
                         status_error = Some ''HUGGINGFACE_API_KEY not configured'' \<rparr>
        else bind_io (request HuggingFace probe)
               (\<lambda>result. return_io \<lparr> connected = True, apiKeyConfigured = True,
                                      status_error = None \<rparr>))
       (\<lambda>error. return_io \<lparr> connected = False, apiKeyConfigured = configured HF_API_KEY,
                             status_error = Some (message error) \<rparr>)"

section \<open>OpenAIService\<close>

text \<open>
  The chat model answers with text that \<^verbatim>\<open>JSON.parse\<close> turns into a value. The
  parser is a parameter of the model; the values it can give are these. An object is the
  list of its members, and the first entry for a name is the member of that name.
\<close>

datatype json =
    JNull
  | JBool bool
  | JNumber real
  | JString string
  | JArray "json list"
  | JObject "(string \<times> json) list"

text \<open>
  \<^verbatim>\<open>result.label\<close> and \<^verbatim>\<open>result.score\<close>: reading a property of \<^verbatim>\<open>null\<close> throws a
  TypeError; an object gives the member or \<^verbatim>\<open>undefined\<close>; a number, string, boolean
  or array has no such property.
\<close>

fun property :: "json \<Rightarrow> string \<Rightarrow> js_error + json option" where
  "property JNull k = Inl (Error ''Cannot read properties of null'')"
| "property (JObject members) k = Inr (map_of members k)"
| "property v k = Inr None"

text \<open>
  The predicate of the filter in \<open>classifyText\<close>:
  \<^verbatim>\<open>candidateLabels.includes(result.label) && typeof result.score === 'number' && result.score > 0\<close>.
  An element that passes is an object with a string label and a numeric score.
\<close>

definition accepted :: "string list \<Rightarrow> json \<Rightarrow> js_error + ClassificationResult option" where
  "accepted candidateLabels result =
     (case property result ''label'' of
        Inl e \<Rightarrow> Inl e
      | Inr (Some (JString l)) \<Rightarrow>
          if l \<in> set candidateLabels then
            (case property result ''score'' of
               Inl e \<Rightarrow> Inl e
             | Inr (Some (JNumber x)) \<Rightarrow>
                 if x > 0 then Inr (Some \<lparr> label = l, score = x \<rparr>) else Inr None
             | Inr other \<Rightarrow> Inr None)
          else Inr None
      | Inr other \<Rightarrow> Inr None)"

fun filter_accepted :: "string list \<Rightarrow> json list \<Rightarrow> js_error + ClassificationResult list" where
  "filter_accepted candidateLabels [] = Inr []"
| "filter_accepted candidateLabels (result # results) =
     (case accepted candidateLabels result of
        Inl e \<Rightarrow> Inl e
      | Inr r \<Rightarrow>
          (case filter_accepted candidateLabels results of
             Inl e \<Rightarrow> Inl e
           | Inr rest \<Rightarrow> Inr (case r of None \<Rightarrow> rest | Some c \<Rightarrow> c # rest)))"

text \<open>\<^verbatim>\<open>results.filter(...)\<close>: only an array has the method.\<close>

definition filter_results :: "string list \<Rightarrow> json \<Rightarrow> js_error + ClassificationResult list" where
  "filter_results candidateLabels results =
     (case results of
        JArray elements \<Rightarrow> filter_accepted candidateLabels elements
      | other \<Rightarrow> Inl (Error ''results.filter is not a function''))"

text \<open>
  \<open>create\<close> is the outcome of the chat-completion request for the text and the labels:
  an exception, or the content of the first choice (\<open>None\<close> when there is none).
\<close>

definition OpenAIService_classifyText ::
  "string option \<Rightarrow> (string \<Rightarrow> string list \<Rightarrow> js_error + string option)
     \<Rightarrow> (string \<Rightarrow> js_error + json) \<Rightarrow> string \<Rightarrow> string list \<Rightarrow> ClassificationResult list io"
where
  "OpenAIService_classifyText OPENAI_API_KEY create JSON_parse text candidateLabels =
     try_catch
       (if \<not> configured OPENAI_API_KEY then throw_io (Error ''OPENAI_API_KEY not configured'')
        else bind_io (request OpenAI (create text candidateLabels))
               (\<lambda>content.
                  if \<not> truthy_string content then throw_io (Error ''No response from OpenAI'')
                  else try_catch
                         (bind_io (lift (JSON_parse (the content)))
                            (\<lambda>results. lift (filter_results candidateLabels results)))
                         (\<lambda>parseError. return_io [])))
       (\<lambda>error. throw_io (Error (''OpenAI text classification failed: '' @ message error)))"

definition OpenAIService_suggestTags ::
  "string option \<Rightarrow> (string \<Rightarrow> string list \<Rightarrow> js_error + string option)
     \<Rightarrow> (string \<Rightarrow> js_error + json) \<Rightarrow> string \<Rightarrow> string list \<Rightarrow> string list io"
where
  "OpenAIService_suggestTags OPENAI_API_KEY create JSON_parse itemContent availableTags =
     try_catch
       (bind_io (OpenAIService_classifyText OPENAI_API_KEY create JSON_parse itemContent availableTags)
          (\<lambda>classification.
             return_io (map label (top3 (filter (\<lambda>result. score result > 0.1) classification)))))
       (\<lambda>error. return_io [])"

definition OpenAIService_testConnection ::
  "string option \<Rightarrow> (js_error + unit) \<Rightarrow> AIServiceStatus io"
where
  "OpenAIService_testConnection OPENAI_API_KEY probe =
     try_catch
       (if \<not> configured OPENAI_API_KEY
        then return_io \<lparr> connected = False, apiKeyConfigured = False,
                         status_error = Some ''OPENAI_API_KEY not configured'' \<rparr>
        else bind_io (request OpenAI probe)
               (\<lambda>response. return_io \<lparr> connected = True, apiKeyConfigured = True,
                                        status_error = None \<rparr>))
       (\<lambda>error. return_io \<lparr> connected = False, apiKeyConfigured = configured OPENAI_API_KEY,
                             status_error = Some (message error) \<rparr>)"

text \<open>
  The top level of the module builds the client before any method can be called:
  \<^verbatim>\<open>const openai = new OpenAI({ apiKey: OPENAI_API_KEY })\<close>. The constructor of the
  OpenAI library throws an error when the key it is given is undefined (its message
  begins with the words below); any string is accepted. The exception leaves the module
  unloaded, so \<open>openAIService\<close> does not exist.
\<close>

datatype openai_client = OpenAIClient string

definition new_OpenAI :: "string option \<Rightarrow> js_error + openai_client" where
  "new_OpenAI apiKey =
     (case apiKey of
        None \<Rightarrow> Inl (Error ''The OPENAI_API_KEY environment variable is missing or empty'')
      | Some k \<Rightarrow> Inr (OpenAIClient k))"

text \<open>Loading the module, then \<^verbatim>\<open>openAIService.testConnection()\<close>.\<close>

definition openAIService_testConnection ::
  "string option \<Rightarrow> (js_error + unit) \<Rightarrow> AIServiceStatus io"
where
  "openAIService_testConnection OPENAI_API_KEY probe =
     bind_io (lift (new_OpenAI OPENAI_API_KEY))
       (\<lambda>openai. OpenAIService_testConnection OPENAI_API_KEY probe)"

section \<open>GoogleAIService\<close>

text \<open>
  The client object exists exactly when the key is set:
  \<^verbatim>\<open>if (GOOGLE_API_KEY) { genAI = new GoogleGenerativeAI(GOOGLE_API_KEY) }\<close>.
\<close>

datatype google_client = GoogleGenerativeAI string

definition genAI :: "string option \<Rightarrow> google_client option" where
  "genAI GOOGLE_API_KEY =
     (if configured GOOGLE_API_KEY then Some (GoogleGenerativeAI (the GOOGLE_API_KEY)) else None)"

definition GoogleAIService_testConnection ::
  "string option \<Rightarrow> (js_error + unit) \<Rightarrow> AIServiceStatus io"
where
  "GoogleAIService_testConnection GOOGLE_API_KEY probe =
     try_catch
       (if \<not> configured GOOGLE_API_KEY \<or> genAI GOOGLE_API_KEY = None
        then return_io \<lparr> connected = False, apiKeyConfigured = False,
                         status_error = Some ''GOOGLE_API_KEY not configured'' \<rparr>
        else bind_io (request Google probe)
               (\<lambda>result. return_io \<lparr> connected = True, apiKeyConfigured = True,
                                      status_error = None \<rparr>))
       (\<lambda>error. return_io \<lparr> connected = False, apiKeyConfigured = configured GOOGLE_API_KEY,
                             status_error = Some (message error) \<rparr>)"

text \<open>
  \<open>generateContent\<close> is the outcome of the request built from the content and the tags:
  an exception, or the text of the response.
\<close>

definition GoogleAIService_suggestTags ::
  "string option \<Rightarrow> (string \<Rightarrow> string list \<Rightarrow> js_error + string)
     \<Rightarrow> string \<Rightarrow> string list \<Rightarrow> string list io"
where
  "GoogleAIService_suggestTags GOOGLE_API_KEY generateContent itemContent availableTags =
     try_catch
       (if \<not> configured GOOGLE_API_KEY \<or> genAI GOOGLE_API_KEY = None
        then throw_io (Error ''GOOGLE_API_KEY not configured'')
        else bind_io (request Google (generateContent itemContent availableTags))
               (\<lambda>text.
                  return_io
                    (take 3
                       (filter (\<lambda>tag. tag \<in> set availableTags)
                          (filter (\<lambda>tag. length tag > 0)
                             (map trim (split_char CHR '','' text)))))))
       (\<lambda>error. return_io [])"

section \<open>UnifiedAIService (index.ts)\<close>

text \<open>
  The unified service holds one instance of each provider service. A provider service
  is what its four methods do: the log of its remote requests and its result or
  exception.
\<close>

record provider_service =
  testConnection :: "AIServiceStatus io"
  suggestTags :: "string \<Rightarrow> string list \<Rightarrow> string list io"
  parseNote :: "string \<Rightarrow> string list io"
  generateText :: "string \<Rightarrow> int \<Rightarrow> string io"

record services =
  hfService :: provider_service
  openaiService :: provider_service
  googleService :: provider_service

record UnifiedAIServiceStatus = AIServiceStatus +
  provider :: string

text \<open>\<^verbatim>\<open>{ ...result, provider: name }\<close>\<close>

definition with_provider :: "AIServiceStatus \<Rightarrow> string \<Rightarrow> UnifiedAIServiceStatus" where
  "with_provider result name =
     \<lparr> connected = connected result, apiKeyConfigured = apiKeyConfigured result,
       status_error = status_error result, provider = name \<rparr>"

text \<open>The field \<open>this.provider\<close> is a string, read from the environment at start.\<close>

definition UnifiedAIService_testConnection :: "services \<Rightarrow> string \<Rightarrow> UnifiedAIServiceStatus io" where
  "UnifiedAIService_testConnection this this_provider =
     try_catch
       (if this_provider = ''openai'' then
          bind_io (invoke OpenAI TestConnection (testConnection (openaiService this)))
            (\<lambda>result. return_io (with_provider result ''openai''))
        else if this_provider = ''google'' then
          bind_io (invoke Google TestConnection (testConnection (googleService this)))
            (\<lambda>result. return_io (with_provider result ''google''))
        else
          bind_io (invoke HuggingFace TestConnection (testConnection (hfService this)))
            (\<lambda>result. return_io (with_provider result ''huggingface'')))
       (\<lambda>error. return_io \<lparr> connected = False, apiKeyConfigured = False,
                             status_error = Some (message error), provider = this_provider \<rparr>)"

definition UnifiedAIService_suggestTags ::
  "services \<Rightarrow> string \<Rightarrow> string \<Rightarrow> string list \<Rightarrow> string list io"
where
  "UnifiedAIService_suggestTags this this_provider itemContent availableTags =
     try_catch
       (if this_provider = ''openai'' then
          invoke OpenAI SuggestTags (suggestTags (openaiService this) itemContent availableTags)
        else if this_provider = ''google'' then
          invoke Google SuggestTags (suggestTags (googleService this) itemContent availableTags)
        else
          invoke HuggingFace SuggestTags (suggestTags (hfService this) itemContent availableTags))
       (\<lambda>error. return_io [])"

record SuggestionOutcome =
  tags :: "string list"
  outcome_provider :: string
  outcome_error :: "string option"

definition suggestTagsWithProvider ::
  "services \<Rightarrow> string \<Rightarrow> string list \<Rightarrow> string \<Rightarrow> SuggestionOutcome io"
where
  "suggestTagsWithProvider this itemContent availableTags provider_name =
     try_catch
       (bind_io
          (if provider_name = ''openai'' then
             invoke OpenAI SuggestTags (suggestTags (openaiService this) itemContent availableTags)
           else if provider_name = ''google'' then
             invoke Google SuggestTags (suggestTags (googleService this) itemContent availableTags)
           else
             invoke HuggingFace SuggestTags (suggestTags (hfService this) itemContent availableTags))
          (\<lambda>ts. return_io \<lparr> tags = ts, outcome_provider = provider_name, outcome_error = None \<rparr>))
       (\<lambda>error. return_io \<lparr> tags = [], outcome_provider = provider_name,
                             outcome_error = Some (message error) \<rparr>)"

definition UnifiedAIService_parseNote :: "services \<Rightarrow> string \<Rightarrow> string \<Rightarrow> string list io" where
  "UnifiedAIService_parseNote this this_provider noteText =
     try_catch
       (if this_provider = ''openai'' then
          invoke OpenAI ParseNote (parseNote (openaiService this) noteText)
        else if this_provider = ''google'' then
          invoke Google ParseNote (parseNote (googleService this) noteText)
        else
          invoke HuggingFace ParseNote (parseNote (hfService this) noteText))
       (\<lambda>error. return_io [trim noteText])"

definition UnifiedAIService_generateText :: "services \<Rightarrow> string \<Rightarrow> string \<Rightarrow> int \<Rightarrow> string io" where
  "UnifiedAIService_generateText this this_provider prompt maxLength =
     try_catch
       (if this_provider = ''openai'' then
          invoke OpenAI GenerateText (generateText (openaiService this) prompt maxLength)
        else if this_provider = ''google'' then
          invoke Google GenerateText (generateText (googleService this) prompt maxLength)
        else
          invoke HuggingFace GenerateText (generateText (hfService this) prompt maxLength))
       (\<lambda>error. return_io [])"

section \<open>compareProviders (the operations module)\<close>

text \<open>
  \<^verbatim>\<open>Promise.allSettled\<close> turns the outcome of each promise into a settled result. The
  three calls run concurrently and do not share state; the log lists their events in the
  order of the array.
\<close>

datatype 'a settled = Fulfilled 'a | Rejected js_error

definition settle :: "'a io \<Rightarrow> 'a settled io" where
  "settle m = (fst m, Inr (case snd m of Inl reason \<Rightarrow> Rejected reason | Inr v \<Rightarrow> Fulfilled v))"

record provider_entry =
  status :: string
  entry_tags :: "string list"
  entry_error :: "string option"

text \<open>\<^verbatim>\<open>reason?.message\<close>: the message of an Error, undefined for another thrown value.\<close>

definition reason_message :: "js_error \<Rightarrow> string option" where
  "reason_message reason =
     (case reason of Error m \<Rightarrow> Some m | HttpError code m \<Rightarrow> Some m | Thrown \<Rightarrow> None)"

definition entry :: "SuggestionOutcome settled \<Rightarrow> provider_entry" where
  "entry result =
     \<lparr> status = (case result of Fulfilled v \<Rightarrow> ''fulfilled'' | Rejected reason \<Rightarrow> ''rejected''),
       entry_tags = (case result of Fulfilled v \<Rightarrow> tags v | Rejected reason \<Rightarrow> []),
       entry_error = (case result of Fulfilled v \<Rightarrow> outcome_error v
                                   | Rejected reason \<Rightarrow> reason_message reason) \<rparr>"

record comparison =
  timestamp :: string
  input :: string
  availableTagCount :: nat
  huggingface :: provider_entry
  openai :: provider_entry
  google :: provider_entry

record comparison_failure =
  failure_timestamp :: string
  failure_input :: string
  failure_error :: string

datatype compare_result = Compared comparison | Failed comparison_failure

text \<open>
  \<open>user\<close> says whether the request is authenticated, \<open>findMany\<close> is the outcome of
  reading the names of the global tags, \<open>now\<close> is the clock's ISO time.
\<close>

definition compareProviders ::
  "bool \<Rightarrow> (js_error + string list) \<Rightarrow> string \<Rightarrow> services \<Rightarrow> string \<Rightarrow> compare_result io"
where
  "compareProviders user findMany now aiService text =
     (if \<not> user then throw_io (HttpError 401 ''Not authorized'')
      else
        try_catch
          (bind_io (lift findMany)
             (\<lambda>tagNames.
                bind_io (settle (suggestTagsWithProvider aiService text tagNames ''huggingface''))
                  (\<lambda>hfResult.
                     bind_io (settle (suggestTagsWithProvider aiService text tagNames ''openai''))
                       (\<lambda>openaiResult.
                          bind_io (settle (suggestTagsWithProvider aiService text tagNames ''google''))
                            (\<lambda>googleResult.
                               return_io
                                 (Compared
                                    \<lparr> timestamp = now, input = text,
                                      availableTagCount = length tagNames,
                                      huggingface = entry hfResult,
                                      openai = entry openaiResult,
                                      google = entry googleResult \<rparr>))))))
          (\<lambda>error. return_io (Failed \<lparr> failure_timestamp = now, failure_input = text,
                                        failure_error = message error \<rparr>)))"

section \<open>UnifiedAIService (aiService.ts)\<close>

text \<open>
  This service holds the HuggingFace and the Google provider (the fields \<open>hf\<close> and
  \<open>ggl\<close> stand for \<^verbatim>\<open>this.hfService\<close> and \<^verbatim>\<open>this.googleService\<close>) and a default
  provider. \<open>suggestTags\<close> calls itself from its own exception handler, so the model
  counts the calls still allowed: with none left the result is \<open>None\<close>.
\<close>

record two_services =
  hf :: provider_service
  ggl :: provider_service

fun aiService_suggestTags ::
  "nat \<Rightarrow> two_services \<Rightarrow> string \<Rightarrow> string \<Rightarrow> string list \<Rightarrow> string option
     \<Rightarrow> string list io option"
where
  "aiService_suggestTags 0 this defaultProvider itemContent availableTags provider_arg = None"
| "aiService_suggestTags (Suc n) this defaultProvider itemContent availableTags provider_arg =
     (let useProvider = (if truthy_string provider_arg then the provider_arg else defaultProvider);
          attempt =
            bind_io
              (if useProvider = ''google'' then
                 bind_io (invoke Google TestConnection (testConnection (ggl this)))
                   (\<lambda>googleStatus.
                      if connected googleStatus then
                        bind_io (invoke Google SuggestTags
                                   (suggestTags (ggl this) itemContent availableTags))
                          (\<lambda>r. return_io (Some r))
                      else return_io None)
               else return_io None)
              (\<lambda>returned.
                 case returned of
                   Some r \<Rightarrow> return_io r
                 | None \<Rightarrow>
                     bind_io (invoke HuggingFace TestConnection (testConnection (hf this)))
                       (\<lambda>hfStatus.
                          if connected hfStatus then
                            invoke HuggingFace SuggestTags
                              (suggestTags (hf this) itemContent availableTags)
                          else return_io []));
          fallbackProvider = (if useProvider = ''google'' then ''huggingface'' else ''google'')
      in case snd attempt of
           Inr r \<Rightarrow> Some attempt
         | Inl error \<Rightarrow>
             (case aiService_suggestTags n this defaultProvider itemContent availableTags
                     (Some fallbackProvider) of
                None \<Rightarrow> None
              | Some fallback \<Rightarrow>
                  Some (try_catch attempt
                          (\<lambda>error. try_catch fallback (\<lambda>fallbackError. return_io [])))))"

section \<open>Notions used in the statements\<close>

text \<open>The provider that the \<^verbatim>\<open>if / else if / else\<close> chain of index.ts selects for a name.\<close>

definition selected :: "string \<Rightarrow> service" where
  "selected name =
     (if name = ''openai'' then OpenAI else if name = ''google'' then Google else HuggingFace)"

definition service_of :: "services \<Rightarrow> service \<Rightarrow> provider_service" where
  "service_of this s =
     (case s of HuggingFace \<Rightarrow> hfService this | OpenAI \<Rightarrow> openaiService this
              | Google \<Rightarrow> googleService this)"

text \<open>
  The entry that a comparison shows for a provider whose \<open>suggestTags\<close> had the given
  outcome: the status is \<^verbatim>\<open>fulfilled\<close> in both cases.
\<close>

definition shown_entry :: "js_error + string list \<Rightarrow> provider_entry" where
  "shown_entry outcome =
     (case outcome of
        Inr ts \<Rightarrow> \<lparr> status = ''fulfilled'', entry_tags = ts, entry_error = None \<rparr>
      | Inl e \<Rightarrow> \<lparr> status = ''fulfilled'', entry_tags = [], entry_error = Some (message e) \<rparr>)"

text \<open>The labels that the zero-shot endpoint returned, none if the request failed.\<close>

definition returned_labels :: "js_error + zero_shot_reply \<Rightarrow> string set" where
  "returned_labels outcome =
     (case outcome of
        Inl e \<Rightarrow> {}
      | Inr reply \<Rightarrow> (case reply_labels reply of None \<Rightarrow> {} | Some ls \<Rightarrow> set ls))"

section \<open>Example environments\<close>

text \<open>Remote endpoints that answer, and that fail, used in the examples below.\<close>

definition ner_ok :: "string \<Rightarrow> js_error + raw_entity list" where
  "ner_ok text = Inr []"

definition ner_down :: "string \<Rightarrow> js_error + raw_entity list" where
  "ner_down text = Inl (Error ''fetch failed'')"

definition probe_down :: "js_error + unit" where
  "probe_down = Inl (Error ''fetch failed'')"

definition client_down :: hf_client where
  "client_down =
     \<lparr> textClassification = (\<lambda>content tag. Inl (Error ''fetch failed'')),
       tokenClassification = ner_down,
       zeroShotClassification = (\<lambda>text labels. Inl (Error ''fetch failed'')),
       textGeneration = (\<lambda>prompt maxLength. Inl (Error ''fetch failed'')) \<rparr>"

text \<open>A zero-shot endpoint that answers with a label nobody asked for.\<close>

definition client_stray :: hf_client where
  "client_stray =
     \<lparr> textClassification = (\<lambda>content tag. Inr ()),
       tokenClassification = ner_ok,
       zeroShotClassification =
         (\<lambda>text labels. Inr \<lparr> reply_scores = Some [0.9], reply_labels = Some [''misc''] \<rparr>),
       textGeneration = (\<lambda>prompt maxLength. Inr (Some prompt)) \<rparr>"

text \<open>The HuggingFace service as a provider of the unified service.\<close>

definition HuggingFaceService ::
  "string option \<Rightarrow> string \<Rightarrow> hf_client \<Rightarrow> (js_error + unit) \<Rightarrow> provider_service"
where
  "HuggingFaceService HF_API_KEY HF_MODEL_CLASSIFICATION client probe =
     \<lparr> testConnection = HuggingFaceService_testConnection HF_API_KEY probe,
       suggestTags = HuggingFaceService_suggestTags HF_API_KEY HF_MODEL_CLASSIFICATION client,
       parseNote = HuggingFaceService_parseNote HF_API_KEY (tokenClassification client),
       generateText = HuggingFaceService_generateText HF_API_KEY client \<rparr>"

definition connected_status :: AIServiceStatus where
  "connected_status = \<lparr> connected = True, apiKeyConfigured = True, status_error = None \<rparr>"

text \<open>A provider that answers: it suggests the first available tag.\<close>

definition healthy_service :: provider_service where
  "healthy_service =
     \<lparr> testConnection = return_io connected_status,
       suggestTags = (\<lambda>itemContent availableTags. return_io (take 1 availableTags)),
       parseNote = (\<lambda>noteText. return_io [noteText]),
       generateText = (\<lambda>prompt maxLength. return_io prompt) \<rparr>"

text \<open>A provider that reports a connection and whose other methods throw.\<close>

definition throwing_service :: provider_service where
  "throwing_service =
     \<lparr> testConnection = return_io connected_status,
       suggestTags = (\<lambda>itemContent availableTags. throw_io (Error ''quota exceeded'')),
       parseNote = (\<lambda>noteText. throw_io (Error ''quota exceeded'')),
       generateText = (\<lambda>prompt maxLength. throw_io (Error ''quota exceeded'')) \<rparr>"

definition services_google_throwing :: services where
  "services_google_throwing =
     \<lparr> hfService = healthy_service, openaiService = healthy_service,
       googleService = throwing_service \<rparr>"

definition services_hf_unconfigured :: services where
  "services_hf_unconfigured =
     \<lparr> hfService = HuggingFaceService None ''distilbert-base-uncased'' client_down probe_down,
       openaiService = healthy_service, googleService = healthy_service \<rparr>"

definition google_throwing :: two_services where
  "google_throwing = \<lparr> hf = healthy_service, ggl = throwing_service \<rparr>"

definition hf_throwing :: two_services where
  "hf_throwing = \<lparr> hf = throwing_service, ggl = healthy_service \<rparr>"

definition both_throwing :: two_services where
  "both_throwing = \<lparr> hf = throwing_service, ggl = throwing_service \<rparr>"

text \<open>A Google model that names the same tag twice.\<close>

definition generateContent_twice :: "string \<Rightarrow> string list \<Rightarrow> js_error + string" where
  "generateContent_twice itemContent availableTags = Inr ''shopping, shopping''"

text \<open>An OpenAI model that lists the same label twice.\<close>

definition create_twice :: "string \<Rightarrow> string list \<Rightarrow> js_error + string option" where
  "create_twice text candidateLabels = Inr (Some ''[{...}, {...}]'')"

definition parse_twice :: "string \<Rightarrow> js_error + json" where
  "parse_twice content =
     Inr (JArray [JObject [(''label'', JString ''shopping''), (''score'', JNumber 0.9)],
                  JObject [(''label'', JString ''shopping''), (''score'', JNumber 0.8)]])"

section \<open>Properties\<close>

subsection \<open>Results and logs of the effect operations\<close>

lemma snd_return_io: "snd (return_io x) = Inr x" and fst_return_io: "fst (return_io x) = []"
  by (simp_all add: return_io_def)

lemma snd_throw_io: "snd (throw_io e) = Inl e" and fst_throw_io: "fst (throw_io e) = []"
  by (simp_all add: throw_io_def)

lemma snd_lift: "snd (lift r) = r" and fst_lift: "fst (lift r) = []"
  by (simp_all add: lift_def)

lemma snd_request: "snd (request s outcome) = outcome"
  and fst_request: "fst (request s outcome) = [Network s]"
  by (simp_all add: request_def)

lemma snd_invoke: "snd (invoke s opn m) = snd m"
  and fst_invoke: "fst (invoke s opn m) = Invoke s opn # fst m"
  by (simp_all add: invoke_def)

lemma snd_bind_io: "snd (bind_io m f) = (case snd m of Inl e \<Rightarrow> Inl e | Inr x \<Rightarrow> snd (f x))"
  by (simp add: bind_io_def split: sum.splits)

lemma fst_bind_io:
  "fst (bind_io m f) = (case snd m of Inl e \<Rightarrow> fst m | Inr x \<Rightarrow> fst m @ fst (f x))"
  by (simp add: bind_io_def split: sum.splits)

lemma snd_try_catch:
  "snd (try_catch m h) = (case snd m of Inl e \<Rightarrow> snd (h e) | Inr x \<Rightarrow> Inr x)"
  by (simp add: try_catch_def split: sum.splits)

lemma fst_try_catch:
  "fst (try_catch m h) = (case snd m of Inl e \<Rightarrow> fst m @ fst (h e) | Inr x \<Rightarrow> fst m)"
  by (simp add: try_catch_def split: sum.splits)

lemmas io_simps =
  snd_return_io fst_return_io snd_throw_io fst_throw_io snd_lift fst_lift snd_request fst_request
  snd_invoke fst_invoke snd_bind_io fst_bind_io snd_try_catch fst_try_catch

subsection \<open>parseNote of the HuggingFace service\<close>

lemma parseNote_result:
  "snd (HuggingFaceService_parseNote key tc noteText) =
     Inr (if configured key \<and> \<not> isl (tc noteText) \<and> length (sentences noteText) > 1
          then sentences noteText else [trim noteText])"
  by (cases "tc noteText")
     (simp_all add: HuggingFaceService_parseNote_def HuggingFaceService_extractEntities_def
        io_simps)

lemma sentences_filtered: "list_all (\<lambda>s. length s > 10 \<and> hasLetter s) (sentences noteText)"
  by (simp add: sentences_def list_all_iff)

lemma sentences_ok: "sentences ''ok'' = []"
  by code_simp

lemma trim_ok: "trim ''ok'' = ''ok''"
  by code_simp

lemma sentences_three:
  "sentences ''Buy milk. Call dentist tomorrow. Finish report by Friday.''
     = [''Call dentist tomorrow'', ''Finish report by Friday'']"
  by code_simp

lemma trim_three:
  "trim ''Buy milk. Call dentist tomorrow. Finish report by Friday.''
     = ''Buy milk. Call dentist tomorrow. Finish report by Friday.''"
  by code_simp

lemma sentences_two: "sentences ''Buy milk. Call dentist tomorrow.'' = [''Call dentist tomorrow'']"
  by code_simp

lemma trim_two: "trim ''Buy milk. Call dentist tomorrow.'' = ''Buy milk. Call dentist tomorrow.''"
  by code_simp

text \<open>
  C6, as the specification states it: \<open>parseNote\<close> of the HuggingFace service on
  "Buy milk. Call dentist tomorrow. Finish report by Friday." returns three items. It does
  not: "Buy milk" has 8 characters and the filter keeps fragments longer than 10. With a
  key and an entity endpoint that answers, the result has two items.
\<close>

theorem parseNote_three_sentences_counterexample:
  "snd (HuggingFaceService_parseNote (Some ''hf_key'') ner_ok
          ''Buy milk. Call dentist tomorrow. Finish report by Friday.'')
     = Inr [''Call dentist tomorrow'', ''Finish report by Friday'']"
  by (simp add: parseNote_result sentences_three configured_def ner_ok_def)

text \<open>
  C6, amended: on that note \<open>parseNote\<close> returns the two fragments "Call dentist tomorrow"
  and "Finish report by Friday", each longer than 10 characters and containing a letter,
  when the key is set and the entity extraction succeeds; otherwise it returns the whole
  note as one item.
\<close>

theorem parseNote_three_sentences:
  "snd (HuggingFaceService_parseNote key tc
          ''Buy milk. Call dentist tomorrow. Finish report by Friday.'')
     = Inr (if configured key
               \<and> \<not> isl (tc ''Buy milk. Call dentist tomorrow. Finish report by Friday.'')
            then [''Call dentist tomorrow'', ''Finish report by Friday'']
            else [''Buy milk. Call dentist tomorrow. Finish report by Friday.''])
   \<and> list_all (\<lambda>s. length s > 10 \<and> hasLetter s)
        [''Call dentist tomorrow'', ''Finish report by Friday'']"
  using sentences_filtered [of "''Buy milk. Call dentist tomorrow. Finish report by Friday.''"]
  by (simp add: parseNote_result sentences_three trim_three)

theorem parseNote_three_sentences_witness:
  "snd (HuggingFaceService_parseNote (Some ''hf_key'') ner_down
          ''Buy milk. Call dentist tomorrow. Finish report by Friday.'')
     = Inr [''Buy milk. Call dentist tomorrow. Finish report by Friday.'']"
  using parseNote_three_sentences [of "Some ''hf_key''" ner_down]
  by (simp add: ner_down_def)

text \<open>
  C8: \<open>parseNote\<close> of the HuggingFace service on "ok" returns the one-element sequence
  ["ok"], whether the entity extraction succeeds or throws, with or without a key.
\<close>

theorem parseNote_ok: "snd (HuggingFaceService_parseNote key tc ''ok'') = Inr [''ok'']"
  by (simp add: parseNote_result sentences_ok trim_ok)

text \<open>
  C10: for every note, \<open>parseNote\<close> of the HuggingFace service returns either at least two
  fragments, each of which passed the length and letter filter, or the one-element
  sequence holding the whole trimmed note; when exactly one fragment passes the filter
  the result is the whole trimmed note, not that fragment.
\<close>

theorem parseNote_shape:
  "(snd (HuggingFaceService_parseNote key tc noteText) = Inr (sentences noteText)
      \<and> 2 \<le> length (sentences noteText)
      \<and> list_all (\<lambda>s. length s > 10 \<and> hasLetter s) (sentences noteText)
    \<or> snd (HuggingFaceService_parseNote key tc noteText) = Inr [trim noteText])
   \<and> (length (sentences noteText) = 1 \<longrightarrow>
        snd (HuggingFaceService_parseNote key tc noteText) = Inr [trim noteText])"
  using sentences_filtered [of noteText] by (simp add: parseNote_result)

theorem parseNote_shape_witness:
  "length (sentences ''Buy milk. Call dentist tomorrow.'') = 1
   \<and> snd (HuggingFaceService_parseNote (Some ''hf_key'') ner_ok ''Buy milk. Call dentist tomorrow.'')
       = Inr [''Buy milk. Call dentist tomorrow.'']"
  using parseNote_shape [of "Some ''hf_key''" ner_ok "''Buy milk. Call dentist tomorrow.''"]
  by (simp add: sentences_two trim_two)

subsection \<open>testConnection of the provider services\<close>

text \<open>
  Without a key, \<open>testConnection\<close> of the HuggingFace and of the Google service returns
  \<open>connected = false\<close>, \<open>apiKeyConfigured = false\<close> and an error message; the log is
  empty, so no request is sent, and the result is a value, not an exception.
\<close>

lemma testConnection_without_key:
  "\<not> configured key \<Longrightarrow>
     HuggingFaceService_testConnection key probe =
       ([], Inr \<lparr> connected = False, apiKeyConfigured = False,
                  status_error = Some ''HUGGINGFACE_API_KEY not configured'' \<rparr>)
     \<and> GoogleAIService_testConnection key probe =
       ([], Inr \<lparr> connected = False, apiKeyConfigured = False,
                  status_error = Some ''GOOGLE_API_KEY not configured'' \<rparr>)"
  by (simp add: HuggingFaceService_testConnection_def GoogleAIService_testConnection_def
        try_catch_def return_io_def)

text \<open>
  C5: on each provider whose API key is absent, \<open>testConnection\<close> returns
  \<open>connected = false\<close>, \<open>apiKeyConfigured = false\<close> and an error message, sends no request
  and never throws. With the key undefined this holds of the HuggingFace and of the Google
  service and fails for the OpenAI service: building its client throws while the module
  loads, so no status is returned. The method's own test of the key comes too late.
\<close>

theorem openAIService_testConnection_without_key:
  "openAIService_testConnection None probe_down =
     ([], Inl (Error ''The OPENAI_API_KEY environment variable is missing or empty''))
   \<and> HuggingFaceService_testConnection None probe_down =
       ([], Inr \<lparr> connected = False, apiKeyConfigured = False,
                  status_error = Some ''HUGGINGFACE_API_KEY not configured'' \<rparr>)
   \<and> GoogleAIService_testConnection None probe_down =
       ([], Inr \<lparr> connected = False, apiKeyConfigured = False,
                  status_error = Some ''GOOGLE_API_KEY not configured'' \<rparr>)"
proof -
  have unset: "\<not> configured None"
    by (simp add: configured_def)
  have "openAIService_testConnection None probe_down =
          ([], Inl (Error ''The OPENAI_API_KEY environment variable is missing or empty''))"
    by (simp add: openAIService_testConnection_def new_OpenAI_def bind_io_def lift_def)
  then show ?thesis
    using testConnection_without_key [OF unset, of probe_down] by simp
qed

theorem openAIService_testConnection_without_key_witness:
  "\<not> configured None
   \<and> new_OpenAI None = Inl (Error ''The OPENAI_API_KEY environment variable is missing or empty'')
   \<and> openAIService_testConnection None probe_down =
       ([], Inl (Error ''The OPENAI_API_KEY environment variable is missing or empty''))
   \<and> GoogleAIService_testConnection None probe_down =
       ([], Inr \<lparr> connected = False, apiKeyConfigured = False,
                  status_error = Some ''GOOGLE_API_KEY not configured'' \<rparr>)"
  using openAIService_testConnection_without_key
  by (simp add: configured_def new_OpenAI_def)

subsection \<open>The local relevance score\<close>

lemma toLowerChar_idem: "toLowerChar (toLowerChar c) = toLowerChar c"
  by (simp add: toLowerChar_def isUpper_def)

lemma toLowerCase_idem: "toLowerCase (toLowerCase s) = toLowerCase s"
  by (simp add: toLowerCase_def toLowerChar_idem)

lemma split_char_nonempty: "split_char d s \<noteq> []"
  by (induction s) (auto split: list.splits)

lemma hd_split_char: "hd (split_char d s) = takeWhile (\<lambda>c. c \<noteq> d) s"
  using split_char_nonempty [of d]
  by (induction s) (auto split: list.splits)

lemma startsWith_take: "startsWith s p = (take (length p) s = p)"
  by (induction s p rule: startsWith.induct) auto

text \<open>On words of three characters or more, both prefix tests compare the first three.\<close>

lemma wordMatch_long:
  assumes "length c > 2" "length t > 2"
  shows "wordMatch c t = (if c = t then 0.6 else if take 3 c = take 3 t then 0.3 else 0)"
proof -
  have "length (take 3 t) = 3" "length (take 3 c) = 3"
    using assms by simp_all
  then have "startsWith c (substring3 t) = (take 3 c = take 3 t)"
    and "startsWith t (substring3 c) = (take 3 t = take 3 c)"
    by (simp_all add: startsWith_take substring3_def)
  then show ?thesis
    by (auto simp: wordMatch_def)
qed

lemma fold_add: "fold (\<lambda>x s. s + g x) xs (s0 :: real) = s0 + sum_list (map g xs)"
  by (induction xs arbitrary: s0) simp_all

lemma sum_list_product:
  "sum_list (map (\<lambda>c. sum_list (map (f c) ts)) cs)
     = (sum_list (map (\<lambda>(c, t). f c t) (List.product cs ts)) :: real)"
  by (induction cs) (simp_all add: comp_def)

lemma sum_list_two_cases:
  "sum_list (map (\<lambda>x. if P x then a else if Q x then b else 0) xs)
     = a * real (length (filter P xs)) + b * real (length (filter (\<lambda>x. \<not> P x \<and> Q x) xs))"
  by (induction xs) (simp_all add: algebra_simps)

text \<open>The two nested loops add 0.6 for each equal pair and 0.3 for each other pair with a common prefix.\<close>

lemma word_loops:
  assumes "\<forall>c \<in> set cs. length c > 2" "\<forall>t \<in> set ts. length t > 2"
  shows "fold (\<lambda>contentWord s. fold (\<lambda>tagWord s'. s' + wordMatch contentWord tagWord) ts s) cs s0
    = s0 + (0.6 * real (length (filter (\<lambda>(c, t). c = t) (List.product cs ts)))
            + 0.3 * real (length (filter (\<lambda>(c, t). c \<noteq> t \<and> take 3 c = take 3 t)
                                    (List.product cs ts))))"
proof -
  have "fold (\<lambda>contentWord s. fold (\<lambda>tagWord s'. s' + wordMatch contentWord tagWord) ts s) cs s0
      = s0 + sum_list (map (\<lambda>(c, t). wordMatch c t) (List.product cs ts))"
    by (simp add: fold_add sum_list_product)
  also have "map (\<lambda>(c, t). wordMatch c t) (List.product cs ts)
      = map (\<lambda>x. if (\<lambda>(c, t). c = t) x then 0.6
                  else if (\<lambda>(c, t). take 3 c = take 3 t) x then 0.3 else 0) (List.product cs ts)"
    using assms by (auto simp: wordMatch_long)
  also have "sum_list \<dots>
      = 0.6 * real (length (filter (\<lambda>(c, t). c = t) (List.product cs ts)))
        + 0.3 * real (length (filter (\<lambda>x. \<not> (\<lambda>(c, t). c = t) x
                                            \<and> (\<lambda>(c, t). take 3 c = take 3 t) x)
                                 (List.product cs ts)))"
    by (rule sum_list_two_cases)
  also have "(\<lambda>x. \<not> (\<lambda>(c, t). c = t) x \<and> (\<lambda>(c, t). take 3 c = take 3 t) x)
      = (\<lambda>(c, t). c \<noteq> t \<and> take 3 c = take 3 t)"
    by auto
  finally show ?thesis .
qed

lemma getContextMatches_own:
  "\<not> inheritedProperty (toLowerCase tag) \<Longrightarrow>
   getContextMatches (toLowerCase content) (toLowerCase tag)
     = Inr (case map_of contextMappings (toLowerCase tag) of
              None \<Rightarrow> 0
            | Some keywords \<Rightarrow>
                length (filter (\<lambda>keyword. includes_str (toLowerCase content) keyword) keywords))"
  by (simp add: getContextMatches_def toLowerCase_idem split: option.splits)

lemma contextBonus_count:
  "contextBonus content tag
     = real (case map_of contextMappings (toLowerCase tag) of
              None \<Rightarrow> 0
            | Some keywords \<Rightarrow>
                length (filter (\<lambda>keyword. includes_str (toLowerCase content) keyword) keywords))
       * 0.4"
  by (simp add: contextBonus_def split: option.splits)

lemma contextBonus_other_tags:
  "toLowerCase tag \<notin> {''food'', ''shopping'', ''work'', ''health'', ''travel'', ''home'', ''finance''}
   \<Longrightarrow> contextBonus content tag = 0"
  by (simp add: contextBonus_def contextMappings_def)

lemma calculateTagRelevance_value:
  assumes "\<not> inheritedProperty (toLowerCase tag)"
  shows "calculateTagRelevance content tag = Inr (weightedRelevance content tag)"
proof -
  have loops:
    "fold (\<lambda>contentWord s. fold (\<lambda>tagWord s'. s' + wordMatch contentWord tagWord) (tokens tag) s)
       (tokens content) s0 = s0 + tokenBonus content tag" for s0
    unfolding tokenBonus_def by (rule word_loops) (simp_all add: tokens_def)
  show ?thesis
    unfolding calculateTagRelevance_def Let_def getContextMatches_own [OF assms]
    by (simp add: loops [unfolded tokens_def] weightedRelevance_def substringBonus_def
          anyWordBonus_def firstWord_def hd_split_char contextBonus_count min.commute)
qed

text \<open>A tag named after an inherited property makes the score throw.\<close>

lemma calculateTagRelevance_inherited:
  "calculateTagRelevance ''call the constructor'' ''Constructor''
     = Inl (Error ''keywords.filter is not a function'')"
  by code_simp

lemma relevance_workshop: "calculateTagRelevance ''my workshop'' ''shop'' = Inr 1"
  by code_simp

lemma claimed_workshop: "claimedRelevance ''my workshop'' ''shop'' = 0.8"
  by code_simp

text \<open>
  C7, as the specification states it: the score is the capped sum in which the 0.4 part
  is given when the first word of the note overlaps the tag (\<open>claimedRelevance\<close>). For the
  note "my workshop" and the tag "shop" the first word "my" and the tag have no
  character in common, so the claimed sum is 0.8; the code gives 1.0, because it also
  gives the 0.4 when any word of the note, here "workshop", contains the tag.
\<close>

theorem calculateTagRelevance_first_word_counterexample:
  "calculateTagRelevance ''my workshop'' ''shop'' \<noteq> Inr (claimedRelevance ''my workshop'' ''shop'')"
  by (simp add: relevance_workshop claimed_workshop)

text \<open>
  C7, amended: for every note and every tag whose lower-cased name is not an inherited
  property name of the table object, the score is \<open>min 1.0 s\<close> where \<open>s\<close> is the sum of
  0.8 if the lower-cased tag is a substring of the lower-cased note; 0.4 if the tag
  contains the first space-separated word of the note or some space-separated word of the
  note contains the tag; 0.6 for each equal pair and 0.3 for each other pair with the same
  first three characters among the note's and the tag's tokens longer than 2 characters;
  and 0.4 for each keyword of the table entry of the lower-cased tag that occurs in the note.
  A tag that is none of food, shopping, work, health, travel, home, finance gets no
  context bonus.
\<close>

theorem calculateTagRelevance_weighted:
  "\<not> inheritedProperty (toLowerCase tag) \<Longrightarrow>
     calculateTagRelevance content tag = Inr (weightedRelevance content tag)
     \<and> (toLowerCase tag \<notin> {''food'', ''shopping'', ''work'', ''health'', ''travel'', ''home'',
                             ''finance''}
        \<longrightarrow> contextBonus content tag = 0)"
  by (simp add: calculateTagRelevance_value contextBonus_other_tags)

lemma lower_shop: "toLowerCase ''shop'' = ''shop''"
  by code_simp

theorem calculateTagRelevance_weighted_witness:
  "\<not> inheritedProperty (toLowerCase ''shop'')
   \<and> toLowerCase ''shop'' \<notin> {''food'', ''shopping'', ''work'', ''health'', ''travel'', ''home'',
                              ''finance''}
   \<and> calculateTagRelevance ''my workshop'' ''shop'' = Inr (weightedRelevance ''my workshop'' ''shop'')
   \<and> contextBonus ''my workshop'' ''shop'' = 0"
proof -
  have own: "\<not> inheritedProperty (toLowerCase ''shop'')"
    by (simp add: lower_shop inheritedProperty_def)
  have other: "toLowerCase ''shop'' \<notin> {''food'', ''shopping'', ''work'', ''health'', ''travel'',
                                       ''home'', ''finance''}"
    by (simp add: lower_shop)
  show ?thesis
    using own other calculateTagRelevance_weighted [OF own, of "''my workshop''"] by blast
qed

subsection \<open>Dispatch of the unified service (index.ts)\<close>

text \<open>
  C9: when the current provider is neither \<^verbatim>\<open>openai\<close> nor \<^verbatim>\<open>google\<close>, whatever string
  it is, \<open>testConnection\<close>, \<open>suggestTags\<close>, \<open>parseNote\<close> and \<open>generateText\<close> of the
  unified service invoke the HuggingFace service and nothing else, and build their result
  from its outcome; the name is not rejected.
\<close>

theorem dispatch_default:
  "this_provider \<noteq> ''openai'' \<Longrightarrow> this_provider \<noteq> ''google'' \<Longrightarrow>
     UnifiedAIService_testConnection this this_provider =
       (Invoke HuggingFace TestConnection # fst (testConnection (hfService this)),
        Inr (case snd (testConnection (hfService this)) of
               Inr result \<Rightarrow> with_provider result ''huggingface''
             | Inl e \<Rightarrow> \<lparr> connected = False, apiKeyConfigured = False,
                          status_error = Some (message e), provider = this_provider \<rparr>))
     \<and> UnifiedAIService_suggestTags this this_provider itemContent availableTags =
       (Invoke HuggingFace SuggestTags # fst (suggestTags (hfService this) itemContent availableTags),
        Inr (case snd (suggestTags (hfService this) itemContent availableTags) of
               Inr ts \<Rightarrow> ts | Inl e \<Rightarrow> []))
     \<and> UnifiedAIService_parseNote this this_provider noteText =
       (Invoke HuggingFace ParseNote # fst (parseNote (hfService this) noteText),
        Inr (case snd (parseNote (hfService this) noteText) of
               Inr items \<Rightarrow> items | Inl e \<Rightarrow> [trim noteText]))
     \<and> UnifiedAIService_generateText this this_provider prompt maxLength =
       (Invoke HuggingFace GenerateText # fst (generateText (hfService this) prompt maxLength),
        Inr (case snd (generateText (hfService this) prompt maxLength) of
               Inr t \<Rightarrow> t | Inl e \<Rightarrow> []))"
  by (simp add: UnifiedAIService_testConnection_def UnifiedAIService_suggestTags_def
        UnifiedAIService_parseNote_def UnifiedAIService_generateText_def
        prod_eq_iff io_simps split: sum.splits)

theorem dispatch_default_witness:
  "''hugging-face'' \<noteq> ''openai'' \<and> ''hugging-face'' \<noteq> ''google''
   \<and> UnifiedAIService_testConnection services_google_throwing ''hugging-face'' =
       ([Invoke HuggingFace TestConnection],
        Inr \<lparr> connected = True, apiKeyConfigured = True, status_error = None,
               provider = ''huggingface'' \<rparr>)
   \<and> UnifiedAIService_suggestTags services_google_throwing ''hugging-face'' ''buy milk''
         [''shopping''] = ([Invoke HuggingFace SuggestTags], Inr [''shopping''])
   \<and> UnifiedAIService_parseNote services_google_throwing ''hugging-face'' ''buy milk'' =
       ([Invoke HuggingFace ParseNote], Inr [''buy milk''])
   \<and> UnifiedAIService_generateText services_google_throwing ''hugging-face'' ''buy milk'' 100 =
       ([Invoke HuggingFace GenerateText], Inr ''buy milk'')"
proof -
  have names: "''hugging-face'' \<noteq> ''openai''" "''hugging-face'' \<noteq> ''google''"
    by simp_all
  show ?thesis
    using dispatch_default [OF names, of services_google_throwing "''buy milk''" "[''shopping'']"
        "''buy milk''" "''buy milk''" 100]
    by (simp add: services_google_throwing_def healthy_service_def connected_status_def
          with_provider_def io_simps)
qed

subsection \<open>generateText\<close>

lemma generateText_selected:
  "UnifiedAIService_generateText this name prompt maxLength =
     (Invoke (selected name) GenerateText
        # fst (generateText (service_of this (selected name)) prompt maxLength),
      Inr (case snd (generateText (service_of this (selected name)) prompt maxLength) of
             Inr t \<Rightarrow> t | Inl e \<Rightarrow> []))"
  by (simp add: UnifiedAIService_generateText_def selected_def service_of_def
        prod_eq_iff io_simps split: sum.splits)

lemma HuggingFaceService_generateText_result:
  "HuggingFaceService_generateText key client prompt maxLength =
     (if \<not> configured key
      then ([], Inl (Error ''Text generation failed: HUGGINGFACE_API_KEY not configured''))
      else ([Network HuggingFace],
            case textGeneration client prompt maxLength of
              Inl e \<Rightarrow> Inl (Error (''Text generation failed: '' @ message e))
            | Inr generated_text \<Rightarrow> Inr (case generated_text of None \<Rightarrow> [] | Some t \<Rightarrow> t)))"
  by (simp add: HuggingFaceService_generateText_def prod_eq_iff io_simps split: sum.splits)

lemma unconfigured_generateText:
  "generateText (hfService services_hf_unconfigured) ''Write a haiku'' 100 =
     ([], Inl (Error ''Text generation failed: HUGGINGFACE_API_KEY not configured''))"
  by (simp add: services_hf_unconfigured_def HuggingFaceService_def
        HuggingFaceService_generateText_result configured_def)

text \<open>
  C2, as the specification states it: when the provider's generation call fails,
  \<open>generateText\<close> of the unified service throws. It does not: with the HuggingFace key
  missing the provider throws, and the unified service returns the empty string.
\<close>

theorem generateText_propagates_counterexample:
  "generateText (hfService services_hf_unconfigured) ''Write a haiku'' 100 =
     ([], Inl (Error ''Text generation failed: HUGGINGFACE_API_KEY not configured''))
   \<and> UnifiedAIService_generateText services_hf_unconfigured ''huggingface'' ''Write a haiku'' 100 =
     ([Invoke HuggingFace GenerateText], Inr [])"
  by (simp add: generateText_selected selected_def service_of_def unconfigured_generateText)

text \<open>
  C2, amended: when \<open>generateText\<close> of the selected provider throws, \<open>generateText\<close> of the
  unified service catches the exception and returns the empty string. The provider
  itself throws: \<open>generateText\<close> of the HuggingFace service, without a key or when its
  generation request fails, throws an Error whose message is
  \<^verbatim>\<open>Text generation failed: \<close> followed by the cause.
\<close>

theorem generateText_failure:
  "(snd (generateText (service_of this (selected name)) prompt maxLength) = Inl e \<longrightarrow>
      snd (UnifiedAIService_generateText this name prompt maxLength) = Inr [])
   \<and> (\<not> configured key \<longrightarrow>
        HuggingFaceService_generateText key client prompt maxLength =
          ([], Inl (Error ''Text generation failed: HUGGINGFACE_API_KEY not configured'')))
   \<and> (configured key \<longrightarrow> textGeneration client prompt maxLength = Inl cause \<longrightarrow>
        HuggingFaceService_generateText key client prompt maxLength =
          ([Network HuggingFace], Inl (Error (''Text generation failed: '' @ message cause))))"
  by (simp add: generateText_selected HuggingFaceService_generateText_result)

theorem generateText_failure_witness:
  "snd (generateText (service_of services_hf_unconfigured (selected ''huggingface''))
          ''Write a haiku'' 100)
     = Inl (Error ''Text generation failed: HUGGINGFACE_API_KEY not configured'')
   \<and> snd (UnifiedAIService_generateText services_hf_unconfigured ''huggingface''
            ''Write a haiku'' 100) = Inr []
   \<and> \<not> configured None
   \<and> HuggingFaceService_generateText None client_down ''Write a haiku'' 100 =
       ([], Inl (Error ''Text generation failed: HUGGINGFACE_API_KEY not configured''))
   \<and> configured (Some ''hf_key'')
   \<and> textGeneration client_down ''Write a haiku'' 100 = Inl (Error ''fetch failed'')
   \<and> HuggingFaceService_generateText (Some ''hf_key'') client_down ''Write a haiku'' 100 =
       ([Network HuggingFace], Inl (Error ''Text generation failed: fetch failed''))"
proof -
  have thrown: "snd (generateText (service_of services_hf_unconfigured (selected ''huggingface''))
                       ''Write a haiku'' 100)
                  = Inl (Error ''Text generation failed: HUGGINGFACE_API_KEY not configured'')"
    by (simp add: selected_def service_of_def unconfigured_generateText)
  have unset: "\<not> configured None" and set: "configured (Some ''hf_key'')"
    by (simp_all add: configured_def)
  have down: "textGeneration client_down ''Write a haiku'' 100 = Inl (Error ''fetch failed'')"
    by (simp add: client_down_def)
  show ?thesis
    using thrown unset set down
      generateText_failure [of services_hf_unconfigured "''huggingface''" "''Write a haiku''" 100
        "Error ''Text generation failed: HUGGINGFACE_API_KEY not configured''" None client_down
        "Error ''fetch failed''"]
      generateText_failure [of services_hf_unconfigured "''huggingface''" "''Write a haiku''" 100
        "Error ''Text generation failed: HUGGINGFACE_API_KEY not configured''" "Some ''hf_key''"
        client_down "Error ''fetch failed''"]
    by simp
qed

subsection \<open>compareProviders\<close>

lemma snd_suggestTagsWithProvider:
  "snd (suggestTagsWithProvider this itemContent availableTags name) =
     Inr (case snd (suggestTags (service_of this (selected name)) itemContent availableTags) of
            Inr ts \<Rightarrow> \<lparr> tags = ts, outcome_provider = name, outcome_error = None \<rparr>
          | Inl e \<Rightarrow> \<lparr> tags = [], outcome_provider = name, outcome_error = Some (message e) \<rparr>)"
  by (simp add: suggestTagsWithProvider_def selected_def service_of_def io_simps split: sum.splits)

lemma entry_settle:
  "snd (settle (suggestTagsWithProvider this itemContent availableTags name)) =
     Inr (Fulfilled
            (case snd (suggestTags (service_of this (selected name)) itemContent availableTags) of
               Inr ts \<Rightarrow> \<lparr> tags = ts, outcome_provider = name, outcome_error = None \<rparr>
             | Inl e \<Rightarrow> \<lparr> tags = [], outcome_provider = name,
                          outcome_error = Some (message e) \<rparr>))"
  by (simp add: settle_def snd_suggestTagsWithProvider)

lemma entry_shown:
  "entry (Fulfilled (case outcome of
            Inr ts \<Rightarrow> \<lparr> tags = ts, outcome_provider = name, outcome_error = None \<rparr>
          | Inl e \<Rightarrow> \<lparr> tags = [], outcome_provider = name, outcome_error = Some (message e) \<rparr>))
     = shown_entry outcome"
  by (simp add: entry_def shown_entry_def split: sum.splits)

lemma compareProviders_result:
  "snd (compareProviders True (Inr tagNames) now this text) =
     Inr (Compared
            \<lparr> timestamp = now, input = text, availableTagCount = length tagNames,
              huggingface = shown_entry (snd (suggestTags (hfService this) text tagNames)),
              openai = shown_entry (snd (suggestTags (openaiService this) text tagNames)),
              google = shown_entry (snd (suggestTags (googleService this) text tagNames)) \<rparr>)"
  by (simp add: compareProviders_def io_simps entry_settle entry_shown selected_def service_of_def)

text \<open>
  C4, as the specification states it: the entry of a provider whose call throws has the
  status \<^verbatim>\<open>rejected\<close>. It has not: with a Google provider that throws, the Google entry
  is \<^verbatim>\<open>fulfilled\<close>, with no tags and the message of the exception.
\<close>

theorem compareProviders_rejected_counterexample:
  "snd (compareProviders True (Inr [''shopping'']) ''2025-01-01T00:00:00.000Z''
          services_google_throwing ''buy milk'')
     = Inr (Compared
              \<lparr> timestamp = ''2025-01-01T00:00:00.000Z'', input = ''buy milk'',
                availableTagCount = 1,
                huggingface = \<lparr> status = ''fulfilled'', entry_tags = [''shopping''],
                                entry_error = None \<rparr>,
                openai = \<lparr> status = ''fulfilled'', entry_tags = [''shopping''],
                           entry_error = None \<rparr>,
                google = \<lparr> status = ''fulfilled'', entry_tags = [],
                           entry_error = Some ''quota exceeded'' \<rparr> \<rparr>)"
  by (simp add: compareProviders_result shown_entry_def services_google_throwing_def
        healthy_service_def throwing_service_def io_simps)

text \<open>
  C4, amended: for an authenticated request whose tag lookup succeeds, \<open>compareProviders\<close>
  returns one entry for each of huggingface, openai and google, also when some provider's
  \<open>suggestTags\<close> throws. Each entry is determined by the outcome of its own provider alone:
  status \<^verbatim>\<open>fulfilled\<close> with the provider's tags when it returned, and status
  \<^verbatim>\<open>fulfilled\<close> with no tags and the message of the exception when it threw.
\<close>

theorem compareProviders_entries:
  "findMany = Inr tagNames \<Longrightarrow>
   snd (compareProviders True findMany now this text) =
     Inr (Compared
            \<lparr> timestamp = now, input = text, availableTagCount = length tagNames,
              huggingface = shown_entry (snd (suggestTags (hfService this) text tagNames)),
              openai = shown_entry (snd (suggestTags (openaiService this) text tagNames)),
              google = shown_entry (snd (suggestTags (googleService this) text tagNames)) \<rparr>)"
  by (simp add: compareProviders_result)

theorem compareProviders_entries_witness:
  "snd (compareProviders True (Inr [''shopping'', ''work'']) ''2025-01-01T00:00:00.000Z''
          services_hf_unconfigured ''buy milk'')
     = Inr (Compared
              \<lparr> timestamp = ''2025-01-01T00:00:00.000Z'', input = ''buy milk'',
                availableTagCount = 2,
                huggingface = shown_entry (snd (suggestTags (hfService services_hf_unconfigured)
                                                   ''buy milk'' [''shopping'', ''work''])),
                openai = \<lparr> status = ''fulfilled'', entry_tags = [''shopping''],
                           entry_error = None \<rparr>,
                google = \<lparr> status = ''fulfilled'', entry_tags = [''shopping''],
                           entry_error = None \<rparr> \<rparr>)"
proof -
  have found: "(Inr [''shopping'', ''work''] :: js_error + string list) = Inr [''shopping'', ''work'']"
    by simp
  show ?thesis
    using compareProviders_entries [OF found, of "''2025-01-01T00:00:00.000Z''"
        services_hf_unconfigured "''buy milk''"]
    by (simp add: shown_entry_def services_hf_unconfigured_def healthy_service_def io_simps)
qed

subsection \<open>Fallback of suggestTags\<close>

lemma suggestTags_selected:
  "UnifiedAIService_suggestTags this name itemContent availableTags =
     (Invoke (selected name) SuggestTags
        # fst (suggestTags (service_of this (selected name)) itemContent availableTags),
      Inr (case snd (suggestTags (service_of this (selected name)) itemContent availableTags) of
             Inr ts \<Rightarrow> ts | Inl e \<Rightarrow> []))"
  by (simp add: UnifiedAIService_suggestTags_def selected_def service_of_def
        prod_eq_iff io_simps split: sum.splits)

lemma aiService_google_then_hf:
  assumes "snd (testConnection (ggl this)) = Inr gs" "connected gs"
    and "snd (suggestTags (ggl this) c ts) = Inl e"
    and "snd (testConnection (hf this)) = Inr hs" "connected hs"
    and "snd (suggestTags (hf this) c ts) = Inr r"
  shows "aiService_suggestTags (Suc (Suc n)) this ''google'' c ts None =
           Some (Invoke Google TestConnection # fst (testConnection (ggl this))
                 @ Invoke Google SuggestTags # fst (suggestTags (ggl this) c ts)
                 @ Invoke HuggingFace TestConnection # fst (testConnection (hf this))
                 @ Invoke HuggingFace SuggestTags # fst (suggestTags (hf this) c ts),
                 Inr r)"
  using assms
  by (simp add: truthy_string_def prod_eq_iff io_simps Let_def)

lemma aiService_hf_then_google:
  assumes "snd (testConnection (hf this)) = Inr hs" "connected hs"
    and "snd (suggestTags (hf this) c ts) = Inl e"
    and "snd (testConnection (ggl this)) = Inr gs" "connected gs"
    and "snd (suggestTags (ggl this) c ts) = Inr r"
  shows "aiService_suggestTags (Suc (Suc n)) this ''huggingface'' c ts None =
           Some (Invoke HuggingFace TestConnection # fst (testConnection (hf this))
                 @ Invoke HuggingFace SuggestTags # fst (suggestTags (hf this) c ts)
                 @ Invoke Google TestConnection # fst (testConnection (ggl this))
                 @ Invoke Google SuggestTags # fst (suggestTags (ggl this) c ts),
                 Inr r)"
  using assms
  by (simp add: truthy_string_def prod_eq_iff io_simps Let_def)

text \<open>
  The handler of \<open>suggestTags\<close> in aiService.ts calls \<open>suggestTags\<close> itself, whose own
  handler turns back to the first provider: when both providers keep throwing, no number
  of calls is enough for a result.
\<close>

lemma aiService_both_throwing:
  "aiService_suggestTags n both_throwing defaultProvider itemContent availableTags provider_arg
     = None"
  by (induction n arbitrary: provider_arg)
     (simp_all add: both_throwing_def throwing_service_def connected_status_def io_simps Let_def)

text \<open>
  C3, as the specification states it: when \<open>suggestTags\<close> of the selected provider throws,
  the unified service retries with the other provider and returns its result. The service
  of index.ts, the one the operations call, does not: with a Google provider that throws
  and a HuggingFace provider that would answer, it returns no tags and never invokes
  HuggingFace.
\<close>

theorem suggestTags_retry_counterexample:
  "suggestTags (hfService services_google_throwing) ''buy milk'' [''shopping''] =
     ([], Inr [''shopping''])
   \<and> UnifiedAIService_suggestTags services_google_throwing ''google'' ''buy milk'' [''shopping''] =
     ([Invoke Google SuggestTags], Inr [])"
  by (simp add: suggestTags_selected selected_def service_of_def services_google_throwing_def
        healthy_service_def throwing_service_def io_simps return_io_def)

text \<open>
  C3, amended. In index.ts there is no retry: when \<open>suggestTags\<close> of the selected provider
  throws, the unified service invokes that provider only and returns the empty list. In
  aiService.ts, when both providers report a connection, the selected provider (Google or
  HuggingFace) throws and the other one returns, the unified service makes exactly one
  retry, with the other provider, and returns that provider's result.
\<close>

theorem suggestTags_fallback:
  "(snd (suggestTags (service_of this (selected name)) itemContent availableTags) = Inl e \<longrightarrow>
      UnifiedAIService_suggestTags this name itemContent availableTags =
        (Invoke (selected name) SuggestTags
           # fst (suggestTags (service_of this (selected name)) itemContent availableTags),
         Inr []))
   \<and> (snd (testConnection (ggl both)) = Inr googleStatus \<and> connected googleStatus
      \<and> snd (testConnection (hf both)) = Inr hfStatus \<and> connected hfStatus \<longrightarrow>
        (snd (suggestTags (ggl both) itemContent availableTags) = Inl e
         \<and> snd (suggestTags (hf both) itemContent availableTags) = Inr r \<longrightarrow>
           aiService_suggestTags (Suc (Suc n)) both ''google'' itemContent availableTags None =
             Some (Invoke Google TestConnection # fst (testConnection (ggl both))
                   @ Invoke Google SuggestTags # fst (suggestTags (ggl both) itemContent availableTags)
                   @ Invoke HuggingFace TestConnection # fst (testConnection (hf both))
                   @ Invoke HuggingFace SuggestTags
                       # fst (suggestTags (hf both) itemContent availableTags),
                   Inr r))
        \<and> (snd (suggestTags (hf both) itemContent availableTags) = Inl e
           \<and> snd (suggestTags (ggl both) itemContent availableTags) = Inr r \<longrightarrow>
           aiService_suggestTags (Suc (Suc n)) both ''huggingface'' itemContent availableTags None =
             Some (Invoke HuggingFace TestConnection # fst (testConnection (hf both))
                   @ Invoke HuggingFace SuggestTags
                       # fst (suggestTags (hf both) itemContent availableTags)
                   @ Invoke Google TestConnection # fst (testConnection (ggl both))
                   @ Invoke Google SuggestTags # fst (suggestTags (ggl both) itemContent availableTags),
                   Inr r)))"
proof (intro conjI impI)
  assume "snd (suggestTags (service_of this (selected name)) itemContent availableTags) = Inl e"
  then show "UnifiedAIService_suggestTags this name itemContent availableTags =
        (Invoke (selected name) SuggestTags
           # fst (suggestTags (service_of this (selected name)) itemContent availableTags),
         Inr [])"
    by (simp add: suggestTags_selected)
next
  assume "snd (testConnection (ggl both)) = Inr googleStatus \<and> connected googleStatus
      \<and> snd (testConnection (hf both)) = Inr hfStatus \<and> connected hfStatus"
    and "snd (suggestTags (ggl both) itemContent availableTags) = Inl e
         \<and> snd (suggestTags (hf both) itemContent availableTags) = Inr r"
  then show "aiService_suggestTags (Suc (Suc n)) both ''google'' itemContent availableTags None =
             Some (Invoke Google TestConnection # fst (testConnection (ggl both))
                   @ Invoke Google SuggestTags # fst (suggestTags (ggl both) itemContent availableTags)
                   @ Invoke HuggingFace TestConnection # fst (testConnection (hf both))
                   @ Invoke HuggingFace SuggestTags
                       # fst (suggestTags (hf both) itemContent availableTags),
                   Inr r)"
    using aiService_google_then_hf [of both googleStatus itemContent availableTags e hfStatus r n]
    by blast
next
  assume "snd (testConnection (ggl both)) = Inr googleStatus \<and> connected googleStatus
      \<and> snd (testConnection (hf both)) = Inr hfStatus \<and> connected hfStatus"
    and "snd (suggestTags (hf both) itemContent availableTags) = Inl e
           \<and> snd (suggestTags (ggl both) itemContent availableTags) = Inr r"
  then show "aiService_suggestTags (Suc (Suc n)) both ''huggingface'' itemContent availableTags None =
             Some (Invoke HuggingFace TestConnection # fst (testConnection (hf both))
                   @ Invoke HuggingFace SuggestTags
                       # fst (suggestTags (hf both) itemContent availableTags)
                   @ Invoke Google TestConnection # fst (testConnection (ggl both))
                   @ Invoke Google SuggestTags # fst (suggestTags (ggl both) itemContent availableTags),
                   Inr r)"
    using aiService_hf_then_google [of both hfStatus itemContent availableTags e googleStatus r n]
    by blast
qed

lemma google_throwing_facts:
  "snd (testConnection (ggl google_throwing)) = Inr connected_status"
  "snd (testConnection (hf google_throwing)) = Inr connected_status"
  "connected connected_status"
  "snd (suggestTags (ggl google_throwing) ''buy milk'' [''shopping'']) = Inl (Error ''quota exceeded'')"
  "snd (suggestTags (hf google_throwing) ''buy milk'' [''shopping'']) = Inr [''shopping'']"
  by (simp_all add: google_throwing_def healthy_service_def throwing_service_def
        connected_status_def io_simps)

lemma hf_throwing_facts:
  "snd (testConnection (ggl hf_throwing)) = Inr connected_status"
  "snd (testConnection (hf hf_throwing)) = Inr connected_status"
  "snd (suggestTags (hf hf_throwing) ''buy milk'' [''shopping'']) = Inl (Error ''quota exceeded'')"
  "snd (suggestTags (ggl hf_throwing) ''buy milk'' [''shopping'']) = Inr [''shopping'']"
  by (simp_all add: hf_throwing_def healthy_service_def throwing_service_def
        connected_status_def io_simps)

lemma google_selected_throws:
  "snd (suggestTags (service_of services_google_throwing (selected ''google'')) ''buy milk''
          [''shopping'']) = Inl (Error ''quota exceeded'')"
  by (simp add: selected_def service_of_def services_google_throwing_def throwing_service_def
        io_simps)

theorem suggestTags_fallback_witness:
  "snd (suggestTags (service_of services_google_throwing (selected ''google'')) ''buy milk''
          [''shopping'']) = Inl (Error ''quota exceeded'')
   \<and> UnifiedAIService_suggestTags services_google_throwing ''google'' ''buy milk'' [''shopping'']
       = ([Invoke Google SuggestTags], Inr [])
   \<and> snd (testConnection (ggl google_throwing)) = Inr connected_status
   \<and> snd (testConnection (hf google_throwing)) = Inr connected_status
   \<and> connected connected_status
   \<and> snd (suggestTags (ggl google_throwing) ''buy milk'' [''shopping''])
       = Inl (Error ''quota exceeded'')
   \<and> snd (suggestTags (hf google_throwing) ''buy milk'' [''shopping'']) = Inr [''shopping'']
   \<and> aiService_suggestTags 2 google_throwing ''google'' ''buy milk'' [''shopping''] None =
       Some ([Invoke Google TestConnection, Invoke Google SuggestTags,
              Invoke HuggingFace TestConnection, Invoke HuggingFace SuggestTags],
             Inr [''shopping''])
   \<and> snd (testConnection (ggl hf_throwing)) = Inr connected_status
   \<and> snd (testConnection (hf hf_throwing)) = Inr connected_status
   \<and> snd (suggestTags (hf hf_throwing) ''buy milk'' [''shopping''])
       = Inl (Error ''quota exceeded'')
   \<and> snd (suggestTags (ggl hf_throwing) ''buy milk'' [''shopping'']) = Inr [''shopping'']
   \<and> aiService_suggestTags 2 hf_throwing ''huggingface'' ''buy milk'' [''shopping''] None =
       Some ([Invoke HuggingFace TestConnection, Invoke HuggingFace SuggestTags,
              Invoke Google TestConnection, Invoke Google SuggestTags],
             Inr [''shopping''])"
proof -
  have two: "(2 :: nat) = Suc (Suc 0)"
    by simp
  have index: "UnifiedAIService_suggestTags services_google_throwing ''google'' ''buy milk''
                 [''shopping''] = ([Invoke Google SuggestTags], Inr [])"
    using google_selected_throws
      suggestTags_fallback [of services_google_throwing "''google''" "''buy milk''" "[''shopping'']"
        "Error ''quota exceeded''" google_throwing connected_status connected_status
        "[''shopping'']" 0]
    by (simp add: selected_def service_of_def services_google_throwing_def throwing_service_def
          io_simps)
  have first: "aiService_suggestTags 2 google_throwing ''google'' ''buy milk'' [''shopping''] None =
       Some ([Invoke Google TestConnection, Invoke Google SuggestTags,
              Invoke HuggingFace TestConnection, Invoke HuggingFace SuggestTags],
             Inr [''shopping''])"
    unfolding two
    using google_throwing_facts
      suggestTags_fallback [of services_google_throwing "''google''" "''buy milk''" "[''shopping'']"
        "Error ''quota exceeded''" google_throwing connected_status connected_status
        "[''shopping'']" 0]
    by (simp add: google_throwing_def healthy_service_def throwing_service_def io_simps)
  have second: "aiService_suggestTags 2 hf_throwing ''huggingface'' ''buy milk'' [''shopping''] None =
       Some ([Invoke HuggingFace TestConnection, Invoke HuggingFace SuggestTags,
              Invoke Google TestConnection, Invoke Google SuggestTags],
             Inr [''shopping''])"
    unfolding two
    using hf_throwing_facts google_throwing_facts(3)
      suggestTags_fallback [of services_google_throwing "''google''" "''buy milk''" "[''shopping'']"
        "Error ''quota exceeded''" hf_throwing connected_status connected_status
        "[''shopping'']" 0]
    by (simp add: hf_throwing_def healthy_service_def throwing_service_def io_simps)
  show ?thesis
    using google_selected_throws index first second google_throwing_facts hf_throwing_facts
    by simp
qed


subsection \<open>suggestTags of the provider services\<close>

lemma top3_length: "length (top3 xs) \<le> 3"
  by (simp add: top3_def)

lemma top3_set: "set (top3 xs) \<subseteq> set xs"
  using set_take_subset [of 3 "sort_key (\<lambda>r. - score r) xs"] by (simp add: top3_def)

lemma top3_distinct:
  assumes "distinct (map label xs)"
  shows "distinct (map label (top3 xs))"
proof -
  from assms have "distinct xs" and "inj_on label (set xs)"
    by (simp_all add: distinct_map)
  then have "distinct (map label (sort_key (\<lambda>r. - score r) xs))"
    by (simp add: distinct_map)
  then have "distinct (take 3 (map label (sort_key (\<lambda>r. - score r) xs)))"
    by (rule distinct_take)
  then show ?thesis
    by (simp add: top3_def take_map)
qed

lemma catch_all_returns: "\<exists>r. snd (try_catch m (\<lambda>error. return_io [])) = Inr r"
  by (cases "snd m") (simp_all add: io_simps)

lemma scoreTags_labels:
  "snd (scoreTags tc content ts) = Inr rs \<Longrightarrow> map label rs = ts"
proof (induction ts arbitrary: rs)
  case Nil
  then show ?case by (simp add: io_simps)
next
  case (Cons t ts)
  then show ?case
    by (auto simp: io_simps split: sum.splits)
qed

lemma filter_throwing_filter:
  "filter_throwing p xs = Inr r \<Longrightarrow> r = filter (\<lambda>y. p y = Inr True) xs"
  by (induction xs arbitrary: r) (auto split: sum.splits)

lemma fallbackKeywordMatching_bounds:
  assumes "fallbackKeywordMatching content V = Inr r"
  shows "length r \<le> 3 \<and> set r \<subseteq> set V \<and> (distinct V \<longrightarrow> distinct r)"
proof -
  from assms obtain matches p where "filter_throwing p V = Inr matches" and r: "r = take 3 matches"
    by (auto simp: fallbackKeywordMatching_def Let_def split: sum.splits)
  then have "matches = filter (\<lambda>y. p y = Inr True) V"
    by (simp add: filter_throwing_filter)
  then have "set matches \<subseteq> set V" and "distinct V \<longrightarrow> distinct matches"
    by auto
  then show ?thesis
    using r set_take_subset [of 3 matches] by auto
qed

lemma top_tags_bounds:
  assumes "map label tagScores = V"
  shows "length (map label (top3 (filter P tagScores))) \<le> 3
         \<and> set (map label (top3 (filter P tagScores))) \<subseteq> set V
         \<and> (distinct V \<longrightarrow> distinct (map label (top3 (filter P tagScores))))"
proof -
  have "set (top3 (filter P tagScores)) \<subseteq> set tagScores"
    using top3_set [of "filter P tagScores"] by auto
  then have "set (map label (top3 (filter P tagScores))) \<subseteq> set V"
    using assms by auto
  moreover have "distinct V \<longrightarrow> distinct (map label (top3 (filter P tagScores)))"
    using assms by (auto intro!: top3_distinct simp: distinct_map_filter)
  ultimately show ?thesis
    using top3_length [of "filter P tagScores"] by simp
qed

lemma suggestTagsWithDistilBERT_bounds:
  assumes "snd (suggestTagsWithDistilBERT key tc content V) = Inr r"
  shows "length r \<le> 3 \<and> set r \<subseteq> set V \<and> (distinct V \<longrightarrow> distinct r)"
proof (cases "configured key")
  case False
  with assms have "fallbackKeywordMatching content V = Inr r"
    by (simp add: suggestTagsWithDistilBERT_def io_simps)
  then show ?thesis by (rule fallbackKeywordMatching_bounds)
next
  case True
  show ?thesis
  proof (cases "snd (scoreTags tc content V)")
    case (Inl e)
    with True assms have "fallbackKeywordMatching content V = Inr r"
      by (simp add: suggestTagsWithDistilBERT_def io_simps)
    then show ?thesis by (rule fallbackKeywordMatching_bounds)
  next
    case (Inr tagScores)
    then have labels: "map label tagScores = V"
      by (rule scoreTags_labels)
    show ?thesis
    proof (cases "top3 (filter (\<lambda>result. score result > 0.2) tagScores) = []")
      case True
      with \<open>configured key\<close> Inr assms have "fallbackKeywordMatching content V = Inr r"
        by (simp add: suggestTagsWithDistilBERT_def io_simps Let_def split: sum.splits)
      then show ?thesis by (rule fallbackKeywordMatching_bounds)
    next
      case False
      with \<open>configured key\<close> Inr assms
      have "r = map label (top3 (filter (\<lambda>result. score result > 0.2) tagScores))"
        by (simp add: suggestTagsWithDistilBERT_def io_simps Let_def)
      then show ?thesis
        using top_tags_bounds [OF labels] by simp
    qed
  qed
qed

lemma HuggingFaceService_classifyText_labels:
  assumes "snd (HuggingFaceService_classifyText key zs text V) = Inr cs"
  shows "set (map label cs) \<subseteq> returned_labels (zs text V)"
proof -
  from assms obtain reply where reply: "zs text V = Inr reply"
    and cs: "cs = map (\<lambda>(l, index).
                   \<lparr> label = l,
                     score = (if index < length (case reply_scores reply of None \<Rightarrow> [] | Some v \<Rightarrow> v)
                              then (case reply_scores reply of None \<Rightarrow> [] | Some v \<Rightarrow> v) ! index
                              else 0) \<rparr>)
               (zip (case reply_labels reply of None \<Rightarrow> [] | Some v \<Rightarrow> v)
                    [0 ..< length (case reply_labels reply of None \<Rightarrow> [] | Some v \<Rightarrow> v)])"
    by (auto simp: HuggingFaceService_classifyText_def io_simps Let_def split: if_splits sum.splits)
  have "set (map label cs) \<subseteq> set (case reply_labels reply of None \<Rightarrow> [] | Some v \<Rightarrow> v)"
    unfolding cs by (auto dest: set_zip_leftD)
  then show ?thesis
    by (cases "reply_labels reply") (simp_all add: returned_labels_def reply)
qed

lemma HuggingFaceService_suggestTags_bounds:
  "\<exists>r. snd (HuggingFaceService_suggestTags key model client content V) = Inr r
       \<and> length r \<le> 3
       \<and> (model = ''distilbert-base-uncased'' \<longrightarrow> set r \<subseteq> set V \<and> (distinct V \<longrightarrow> distinct r))
       \<and> (model \<noteq> ''distilbert-base-uncased'' \<longrightarrow>
            set r \<subseteq> returned_labels (zeroShotClassification client content V))"
proof (cases "model = ''distilbert-base-uncased''")
  case True
  show ?thesis
  proof (cases "snd (suggestTagsWithDistilBERT key (textClassification client) content V)")
    case (Inl e)
    with True show ?thesis
      by (simp add: HuggingFaceService_suggestTags_def io_simps)
  next
    case (Inr r)
    with True have "snd (HuggingFaceService_suggestTags key model client content V) = Inr r"
      by (simp add: HuggingFaceService_suggestTags_def io_simps)
    then show ?thesis
      using True suggestTagsWithDistilBERT_bounds [OF Inr] by simp
  qed
next
  case False
  show ?thesis
  proof (cases "snd (HuggingFaceService_classifyText key (zeroShotClassification client) content V)")
    case (Inl e)
    with False show ?thesis
      by (simp add: HuggingFaceService_suggestTags_def io_simps)
  next
    case (Inr cs)
    let ?r = "map label (top3 (filter (\<lambda>result. score result > 0.1) cs))"
    from False Inr have "snd (HuggingFaceService_suggestTags key model client content V) = Inr ?r"
      by (simp add: HuggingFaceService_suggestTags_def io_simps)
    moreover have "set ?r \<subseteq> set (map label cs)"
      using top3_set [of "filter (\<lambda>result. score result > 0.1) cs"] by auto
    then have "set ?r \<subseteq> returned_labels (zeroShotClassification client content V)"
      using HuggingFaceService_classifyText_labels [OF Inr] by blast
    moreover have "length ?r \<le> 3"
      using top3_length [of "filter (\<lambda>result. score result > 0.1) cs"] by simp
    ultimately show ?thesis
      using False by blast
  qed
qed

lemma accepted_label: "accepted V j = Inr (Some c) \<Longrightarrow> label c \<in> set V"
  by (auto simp: accepted_def split: sum.splits option.splits json.splits if_splits)

lemma filter_accepted_labels:
  "filter_accepted V js = Inr cs \<Longrightarrow> set (map label cs) \<subseteq> set V"
proof (induction js arbitrary: cs)
  case Nil
  then show ?case by simp
next
  case (Cons j js)
  from Cons.prems obtain a rest where
    a: "accepted V j = Inr a" and rest: "filter_accepted V js = Inr rest"
    and cs: "cs = (case a of None \<Rightarrow> rest | Some c \<Rightarrow> c # rest)"
    by (auto split: sum.splits)
  have "set (map label rest) \<subseteq> set V"
    using Cons.IH [OF rest] .
  then show ?case
    using a cs accepted_label [of V j] by (cases a) auto
qed

lemma OpenAIService_classifyText_labels:
  assumes "snd (OpenAIService_classifyText key create JSON_parse text V) = Inr cs"
  shows "set (map label cs) \<subseteq> set V"
proof -
  from assms have "cs = [] \<or> (\<exists>js. filter_accepted V js = Inr cs)"
    by (auto simp: OpenAIService_classifyText_def filter_results_def io_simps
          split: if_splits sum.splits json.splits)
  then show ?thesis
  proof
    assume "cs = []"
    then show ?thesis by simp
  next
    assume "\<exists>js. filter_accepted V js = Inr cs"
    then obtain js where "filter_accepted V js = Inr cs" ..
    then show ?thesis by (rule filter_accepted_labels)
  qed
qed

lemma OpenAIService_suggestTags_bounds:
  "\<exists>r. snd (OpenAIService_suggestTags key create JSON_parse content V) = Inr r
       \<and> length r \<le> 3 \<and> set r \<subseteq> set V"
proof (cases "snd (OpenAIService_classifyText key create JSON_parse content V)")
  case (Inl e)
  then show ?thesis
    by (simp add: OpenAIService_suggestTags_def io_simps)
next
  case (Inr cs)
  let ?r = "map label (top3 (filter (\<lambda>result. score result > 0.1) cs))"
  from Inr have "snd (OpenAIService_suggestTags key create JSON_parse content V) = Inr ?r"
    by (simp add: OpenAIService_suggestTags_def io_simps)
  moreover have "set ?r \<subseteq> set (map label cs)"
    using top3_set [of "filter (\<lambda>result. score result > 0.1) cs"] by auto
  then have "set ?r \<subseteq> set V"
    using OpenAIService_classifyText_labels [OF Inr] by blast
  moreover have "length ?r \<le> 3"
    using top3_length [of "filter (\<lambda>result. score result > 0.1) cs"] by simp
  ultimately show ?thesis
    by blast
qed

lemma GoogleAIService_suggestTags_bounds:
  "\<exists>r. snd (GoogleAIService_suggestTags key generateContent content V) = Inr r
       \<and> length r \<le> 3 \<and> set r \<subseteq> set V"
proof (cases "\<not> configured key \<or> genAI key = None")
  case True
  then show ?thesis
    by (auto simp: GoogleAIService_suggestTags_def io_simps)
next
  case False
  show ?thesis
  proof (cases "generateContent content V")
    case (Inl e)
    with False show ?thesis
      by (auto simp: GoogleAIService_suggestTags_def io_simps)
  next
    case (Inr reply_text)
    let ?r = "take 3 (filter (\<lambda>tag. tag \<in> set V)
                (filter (\<lambda>tag. length tag > 0) (map trim (split_char CHR '','' reply_text))))"
    from False Inr have "snd (GoogleAIService_suggestTags key generateContent content V) = Inr ?r"
      by (auto simp: GoogleAIService_suggestTags_def io_simps)
    moreover have "set ?r \<subseteq> set V"
      using set_take_subset [of 3 "filter (\<lambda>tag. tag \<in> set V)
                (filter (\<lambda>tag. length tag > 0) (map trim (split_char CHR '','' reply_text)))"]
      by auto
    ultimately show ?thesis
      by auto
  qed
qed

lemma google_twice:
  "GoogleAIService_suggestTags (Some ''google_key'') generateContent_twice ''buy milk''
       [''shopping'', ''work''] = ([Network Google], Inr [''shopping'', ''shopping''])"
  by code_simp

lemma openai_twice:
  "OpenAIService_suggestTags (Some ''openai_key'') create_twice parse_twice ''buy milk''
       [''shopping'', ''work''] = ([Network OpenAI], Inr [''shopping'', ''shopping''])"
  by code_simp

lemma hf_stray:
  "HuggingFaceService_suggestTags (Some ''hf_key'') ''facebook/bart-large-mnli'' client_stray
       ''buy milk'' [''shopping'', ''work''] = ([Network HuggingFace], Inr [''misc''])"
  by code_simp

text \<open>
  C1, as the specification states it: on each provider the suggested tags are at most
  three, all from the vocabulary, without duplicates. A Google model that answers
  "shopping, shopping" and an OpenAI model that lists the label twice get the tag
  suggested twice; and with a zero-shot classification model configured, the HuggingFace
  service passes on whatever label the endpoint returns.
\<close>

theorem suggestTags_distinct_counterexample:
  "distinct [''shopping'', ''work'']
   \<and> GoogleAIService_suggestTags (Some ''google_key'') generateContent_twice ''buy milk''
        [''shopping'', ''work''] = ([Network Google], Inr [''shopping'', ''shopping''])
   \<and> OpenAIService_suggestTags (Some ''openai_key'') create_twice parse_twice ''buy milk''
        [''shopping'', ''work''] = ([Network OpenAI], Inr [''shopping'', ''shopping''])
   \<and> HuggingFaceService_suggestTags (Some ''hf_key'') ''facebook/bart-large-mnli'' client_stray
        ''buy milk'' [''shopping'', ''work''] = ([Network HuggingFace], Inr [''misc''])"
  by (simp add: google_twice openai_twice hf_stray)

text \<open>
  C1, amended: for every text and vocabulary, \<open>suggestTags\<close> of each provider returns (it
  never throws) a sequence of at most three tags. On OpenAI and Google every tag is a
  member of the vocabulary. On HuggingFace with the default classification model
  \<^verbatim>\<open>distilbert-base-uncased\<close> every tag is a member of the vocabulary and, the vocabulary
  being duplicate-free, so is the result; with another model the tags are among the labels
  that the zero-shot endpoint returned.
\<close>

theorem suggestTags_bounds:
  "(\<exists>r. snd (OpenAIService_suggestTags openai_key create JSON_parse content V) = Inr r
        \<and> length r \<le> 3 \<and> set r \<subseteq> set V)
   \<and> (\<exists>r. snd (GoogleAIService_suggestTags google_key generateContent content V) = Inr r
        \<and> length r \<le> 3 \<and> set r \<subseteq> set V)
   \<and> (\<exists>r. snd (HuggingFaceService_suggestTags hf_key model client content V) = Inr r
        \<and> length r \<le> 3
        \<and> (model = ''distilbert-base-uncased'' \<longrightarrow>
             set r \<subseteq> set V \<and> (distinct V \<longrightarrow> distinct r))
        \<and> (model \<noteq> ''distilbert-base-uncased'' \<longrightarrow>
             set r \<subseteq> returned_labels (zeroShotClassification client content V)))"
proof (intro conjI)
  show "\<exists>r. snd (OpenAIService_suggestTags openai_key create JSON_parse content V) = Inr r
          \<and> length r \<le> 3 \<and> set r \<subseteq> set V"
    by (rule OpenAIService_suggestTags_bounds)
  show "\<exists>r. snd (GoogleAIService_suggestTags google_key generateContent content V) = Inr r
          \<and> length r \<le> 3 \<and> set r \<subseteq> set V"
    by (rule GoogleAIService_suggestTags_bounds)
  show "\<exists>r. snd (HuggingFaceService_suggestTags hf_key model client content V) = Inr r
          \<and> length r \<le> 3
          \<and> (model = ''distilbert-base-uncased'' \<longrightarrow>
               set r \<subseteq> set V \<and> (distinct V \<longrightarrow> distinct r))
          \<and> (model \<noteq> ''distilbert-base-uncased'' \<longrightarrow>
               set r \<subseteq> returned_labels (zeroShotClassification client content V))"
    by (rule HuggingFaceService_suggestTags_bounds)
qed

theorem suggestTags_bounds_witness:
  "distinct [''shopping'', ''work'']
   \<and> (\<exists>r. snd (HuggingFaceService_suggestTags (Some ''hf_key'') ''distilbert-base-uncased''
                 client_down ''buy milk'' [''shopping'', ''work'']) = Inr r
          \<and> length r \<le> 3 \<and> set r \<subseteq> set [''shopping'', ''work''] \<and> distinct r)
   \<and> ''facebook/bart-large-mnli'' \<noteq> ''distilbert-base-uncased''
   \<and> (\<exists>r. snd (HuggingFaceService_suggestTags (Some ''hf_key'') ''facebook/bart-large-mnli''
                 client_stray ''buy milk'' [''shopping'', ''work'']) = Inr r
          \<and> length r \<le> 3
          \<and> set r \<subseteq> returned_labels
                       (zeroShotClassification client_stray ''buy milk'' [''shopping'', ''work'']))"
proof -
  have vocabulary: "distinct [''shopping'', ''work'']"
    and other: "''facebook/bart-large-mnli'' \<noteq> ''distilbert-base-uncased''"
    by simp_all
  obtain r where r: "snd (HuggingFaceService_suggestTags (Some ''hf_key'') ''distilbert-base-uncased''
                            client_down ''buy milk'' [''shopping'', ''work'']) = Inr r"
      "length r \<le> 3"
      "''distilbert-base-uncased'' = ''distilbert-base-uncased'' \<longrightarrow>
         set r \<subseteq> set [''shopping'', ''work'']
         \<and> (distinct [''shopping'', ''work''] \<longrightarrow> distinct r)"
    using suggestTags_bounds [where hf_key = "Some ''hf_key''"
        and model = "''distilbert-base-uncased''" and client = client_down
        and content = "''buy milk''" and V = "[''shopping'', ''work'']",
        THEN conjunct2, THEN conjunct2]
    by (elim exE conjE)
  obtain r' where r': "snd (HuggingFaceService_suggestTags (Some ''hf_key'')
                             ''facebook/bart-large-mnli'' client_stray ''buy milk''
                             [''shopping'', ''work'']) = Inr r'"
      "length r' \<le> 3"
      "''facebook/bart-large-mnli'' \<noteq> ''distilbert-base-uncased'' \<longrightarrow>
         set r' \<subseteq> returned_labels
                      (zeroShotClassification client_stray ''buy milk'' [''shopping'', ''work''])"
    using suggestTags_bounds [where hf_key = "Some ''hf_key''"
        and model = "''facebook/bart-large-mnli''" and client = client_stray
        and content = "''buy milk''" and V = "[''shopping'', ''work'']",
        THEN conjunct2, THEN conjunct2]
    by (elim exE conjE)
  have first: "\<exists>r. snd (HuggingFaceService_suggestTags (Some ''hf_key'') ''distilbert-base-uncased''
                 client_down ''buy milk'' [''shopping'', ''work'']) = Inr r
          \<and> length r \<le> 3 \<and> set r \<subseteq> set [''shopping'', ''work''] \<and> distinct r"
    using r vocabulary by (intro exI [of _ r]) (simp only: refl simp_thms)
  have second: "\<exists>r. snd (HuggingFaceService_suggestTags (Some ''hf_key'') ''facebook/bart-large-mnli''
                 client_stray ''buy milk'' [''shopping'', ''work'']) = Inr r
          \<and> length r \<le> 3
          \<and> set r \<subseteq> returned_labels
                       (zeroShotClassification client_stray ''buy milk'' [''shopping'', ''work''])"
    using r' other by (intro exI [of _ r']) (simp only: simp_thms)
  from vocabulary first other second show ?thesis
    by (intro conjI)
qed

end
